theory Spec2Isabelle
  imports Complex_Main "HOL-Library.AList"
begin

section \<open>Python values shared by both modules\<close>

text \<open>
  Exceptions are values.  \<open>RuntimeError\<close> carries the fixed part of its message, which is
  what tells the two \<open>raise RuntimeError(...)\<close> sites of \<^verbatim>\<open>visitor.py\<close> apart.
  \<open>TypeError\<close> is what Python raises when \<open>None\<close> is called.
\<close>

datatype error =
    RuntimeError string
  | TypeError
  | KeyError
  | AssertionError

section \<open>The dispatch engine: \<^verbatim>\<open>suspect/dag/visitor.py\<close>\<close>

text \<open>
  A class is named by its name.  An expression object has a class (\<open>type(expr)\<close>) and an
  identity; two expressions with the same class and a different identity are different
  dictionary keys.
\<close>

type_synonym cls = string

datatype expr = Expr (expr_type: cls) (expr_id: nat)

text \<open>
  The class hierarchy is not part of \<^verbatim>\<open>visitor.py\<close>; the code only asks
  \<open>isinstance(expr, target_type)\<close>.  It is a parameter \<open>H\<close>: \<open>H c\<close> lists the proper
  ancestors of class \<open>c\<close> in method resolution order, the most specific first, so that
  \<open>c # H c\<close> is \<open>c.__mro__\<close>, and an object is an instance of the classes of its
  class's \<open>__mro__\<close>.
\<close>

type_synonym hierarchy = "cls \<Rightarrow> cls list"

definition mro :: "hierarchy \<Rightarrow> cls \<Rightarrow> cls list" where
  "mro H c = c # H c"

definition isinstance :: "hierarchy \<Rightarrow> expr \<Rightarrow> cls \<Rightarrow> bool" where
  "isinstance H e T \<longleftrightarrow> T \<in> set (mro H (expr_type e))"

text \<open>
  What a handler returns: \<open>None\<close>, a \<open>dict\<close> from expressions to values (in insertion
  order), or any other object.
\<close>

datatype 'v pyval =
    PyNone
  | PyDict "(expr \<times> 'v) list"
  | PyObj 'v

text \<open>
  A handler table is a Python \<open>dict\<close> from classes to callbacks: an association list in
  insertion order, which is the order \<open>.items()\<close> iterates in.  \<open>.get(type_)\<close> is
  \<open>map_of\<close>.  A table may hold \<open>None\<close> in place of a callback (\<open>cb is not None\<close> tests for
  it); calling it raises \<open>TypeError\<close>.
\<close>

type_synonym 'h table = "(cls \<times> 'h option) list"

definition dict_get :: "('k \<times> 'h option) list \<Rightarrow> 'k \<Rightarrow> 'h option" where
  "dict_get d k = (case map_of d k of Some (Some cb) \<Rightarrow> Some cb | _ \<Rightarrow> None)"

text \<open>
  The loop \<open>for target_type, cb in table.items(): if isinstance(expr, target_type): ...\<close>
  leaves at the first entry, in iteration order, whose class the expression is an
  instance of.
\<close>

fun first_instance :: "hierarchy \<Rightarrow> 'h table \<Rightarrow> expr \<Rightarrow> (cls \<times> 'h option) option" where
  "first_instance H [] e = None"
| "first_instance H ((T, cb) # rest) e =
     (if isinstance H e T then Some (T, cb) else first_instance H rest e)"

subsection \<open>Dispatcher\<close>

type_synonym 'v callback = "expr \<Rightarrow> error + 'v pyval"

record 'v Dispatcher =
  lookup :: "'v callback table"
  allow_missing :: bool

definition dispatch :: "hierarchy \<Rightarrow> 'v Dispatcher \<Rightarrow> expr \<Rightarrow> error + 'v pyval" where
  "dispatch H self e =
     (let ty = expr_type e in
      case dict_get (lookup self) ty of
        Some cb \<Rightarrow> cb e
      | None \<Rightarrow>
          (case first_instance H (lookup self) e of
             Some (target_type, Some cb) \<Rightarrow> cb e
           | Some (target_type, None) \<Rightarrow> Inl TypeError
           | None \<Rightarrow>
               if \<not> allow_missing self
               then Inl (RuntimeError ''Could not find callback'')
               else Inr PyNone))"

subsection \<open>Visitor, ForwardVisitor, BackwardVisitor\<close>

text \<open>
  A visitor's handler receives the expression and the context and may write to the
  context, so it returns the context with its result.
\<close>

type_synonym ('v, 'c) handler = "expr \<Rightarrow> 'c \<Rightarrow> error + ('v pyval \<times> 'c)"

definition visit ::
  "hierarchy \<Rightarrow> ('v, 'c) handler table \<Rightarrow> expr \<Rightarrow> 'c \<Rightarrow> error + ('v pyval \<times> 'c)" where
  "visit H registered_handlers e ctx =
     (let ty = expr_type e in
      case dict_get registered_handlers ty of
        Some cb \<Rightarrow> cb e ctx
      | None \<Rightarrow>
          (case first_instance H registered_handlers e of
             Some (target_type, Some cb) \<Rightarrow> cb e ctx
           | Some (target_type, None) \<Rightarrow> Inl TypeError
           | None \<Rightarrow> Inr (PyNone, ctx)))"

definition Visitor_call ::
  "hierarchy \<Rightarrow> ('v, 'c) handler table \<Rightarrow> expr \<Rightarrow> 'c \<Rightarrow> error + ('v pyval \<times> 'c)" where
  "Visitor_call H registered_handlers e ctx = visit H registered_handlers e ctx"

text \<open>The context of a forward visitor is indexed by expressions: \<open>ctx[expr] = result\<close>.\<close>

type_synonym 'v fctx = "expr \<rightharpoonup> 'v pyval"

definition ForwardVisitor_call ::
  "hierarchy \<Rightarrow> ('v, 'v fctx) handler table \<Rightarrow> expr \<Rightarrow> 'v fctx \<Rightarrow>
     error + ('v pyval \<times> 'v fctx)" where
  "ForwardVisitor_call H registered_handlers e ctx =
     (case visit H registered_handlers e ctx of
        Inl err \<Rightarrow> Inl err
      | Inr (result, ctx1) \<Rightarrow>
          if result \<noteq> PyNone then Inr (result, ctx1(e \<mapsto> result))
          else Inr (result, ctx1))"

text \<open>
  \<open>handle_result\<close> is abstract in \<open>BackwardVisitor\<close>: a parameter.  It receives the
  context, may write to it and may raise; what it returns is discarded.
\<close>

type_synonym ('v, 'c) merge = "expr \<Rightarrow> 'v \<Rightarrow> 'c \<Rightarrow> error + 'c"

fun handle_items :: "('v, 'c) merge \<Rightarrow> (expr \<times> 'v) list \<Rightarrow> 'c \<Rightarrow> error + 'c" where
  "handle_items handle_result [] ctx = Inr ctx"
| "handle_items handle_result ((k, v) # rest) ctx =
     (case handle_result k v ctx of
        Inl err \<Rightarrow> Inl err
      | Inr ctx1 \<Rightarrow> handle_items handle_result rest ctx1)"

definition BackwardVisitor_call ::
  "hierarchy \<Rightarrow> ('v, 'c) merge \<Rightarrow> ('v, 'c) handler table \<Rightarrow> expr \<Rightarrow> 'c \<Rightarrow>
     error + ('v pyval \<times> 'c)" where
  "BackwardVisitor_call H handle_result registered_handlers e ctx =
     (case visit H registered_handlers e ctx of
        Inl err \<Rightarrow> Inl err
      | Inr (result, ctx1) \<Rightarrow>
          (case result of
             PyDict items \<Rightarrow>
               (case handle_items handle_result items ctx1 of
                  Inl err \<Rightarrow> Inl err
                | Inr ctx2 \<Rightarrow> Inr (result, ctx2))
           | PyNone \<Rightarrow> Inr (result, ctx1)
           | PyObj x \<Rightarrow> Inl (RuntimeError ''BackwardVisitor must return dict'')))"

section \<open>The summary assembler: \<^verbatim>\<open>suspect/summary.py\<close>\<close>

subsection \<open>The objects of the problem DAG\<close>

text \<open>
  Modelled from the spec: the classes of \<^verbatim>\<open>suspect.dag\<close> (\<open>ProblemDag\<close>, \<open>Variable\<close>,
  \<open>Objective\<close>, \<open>Constraint\<close>) are not among the sources.  The spec (section 3) gives a
  variable a domain tag (\<open>continuous\<close>, \<open>integer\<close>, \<open>binary\<close>), an objective a sense
  (minimize or maximize), a constraint a flag that tells an equality from an inequality,
  and the problem three name-keyed mappings in insertion order.  The tests name the tags
  \<open>Domain.REALS\<close>, \<open>Domain.INTEGERS\<close>, \<open>Domain.BINARY\<close>, \<open>Sense.MINIMIZE\<close> and
  \<open>Sense.MAXIMIZE\<close>.  Every object has a \<open>name\<close> and an identity; the identity is the key
  under which the analysis contexts store what they know of the object.
\<close>

datatype Domain = REALS | INTEGERS | BINARY

datatype Sense = MINIMIZE | MAXIMIZE

record node =
  ident :: nat
  name :: string

record Variable = node +
  domain :: Domain

record Objective = node +
  sense :: Sense

record Constraint = node +
  equality :: bool

definition is_binary :: "Variable \<Rightarrow> bool" where
  "is_binary v \<longleftrightarrow> domain v = BINARY"

definition is_integer :: "Variable \<Rightarrow> bool" where
  "is_integer v \<longleftrightarrow> domain v = INTEGERS"

definition is_minimizing :: "Objective \<Rightarrow> bool" where
  "is_minimizing obj \<longleftrightarrow> sense obj = MINIMIZE"

definition is_equality :: "Constraint \<Rightarrow> bool" where
  "is_equality cons \<longleftrightarrow> equality cons"

text \<open>
  A Python \<open>dict\<close> with string keys is an association list in insertion order;
  \<open>d[k] = v\<close> is \<open>AList.update k v d\<close> (it replaces the value of a key that is there, in
  place, and appends a new key), \<open>k in d\<close> is membership in the keys.
\<close>

type_synonym 'a dict = "(string \<times> 'a) list"

definition contains :: "'a dict \<Rightarrow> string \<Rightarrow> bool" where
  "contains d k \<longleftrightarrow> k \<in> set (map fst d)"

record Problem =
  problem_name :: string
  variables :: "Variable dict"
  objectives :: "Objective dict"
  constraints :: "Constraint dict"

subsection \<open>What the analysis passes produce\<close>

text \<open>
  Modelled from the spec: \<open>ArbitraryPrecisionBound\<close>, the convexity classification and
  \<open>PolynomialDegree\<close> (\<^verbatim>\<open>suspect.bound\<close>, \<^verbatim>\<open>suspect.propagation\<close>,
  \<^verbatim>\<open>suspect.polynomial_degree\<close>) are not among the sources.  By the spec a bound is a
  pair of ends, each possibly absent; a convexity is one of \<open>linear\<close>, \<open>convex\<close>, \<open>concave\<close>,
  \<open>unknown\<close>; a polynomial degree is a non-negative integer or the distinguished
  non-polynomial value, it is linear when it is exactly 1 and quadratic when it is 2.
\<close>

record Bound =
  lower_bound :: "real option"
  upper_bound :: "real option"

datatype Convexity = Linear | Convex | Concave | Unknown

definition cvx_is_linear :: "Convexity \<Rightarrow> bool" where
  "cvx_is_linear cvx \<longleftrightarrow> cvx = Linear"

datatype PolynomialDegree = PolynomialDegree (degree: "nat option")

definition is_polynomial :: "PolynomialDegree \<Rightarrow> bool" where
  "is_polynomial deg \<longleftrightarrow> degree deg \<noteq> None"

definition is_linear :: "PolynomialDegree \<Rightarrow> bool" where
  "is_linear deg \<longleftrightarrow> is_polynomial deg \<and> degree deg = Some 1"

definition is_quadratic :: "PolynomialDegree \<Rightarrow> bool" where
  "is_quadratic deg \<longleftrightarrow> is_polynomial deg \<and> degree deg = Some 2"

text \<open>
  The analysis context: \<open>ctx.bound\<close> and \<open>ctx.convexity\<close>, both keyed by the object.
\<close>

record Context =
  bound :: "nat \<rightharpoonup> Bound"
  convexity :: "nat \<rightharpoonup> Convexity"

text \<open>
  The passes that \<^verbatim>\<open>summary.py\<close> imports are parameters.  Each may raise, and each
  receives the context by reference, so it returns the context as it leaves it.  The two
  change sets are collections of which the code takes \<open>len\<close>.  The two results of
  \<open>propagate_special_structure\<close> are bound to names that are never read; only its effect
  on the context is kept.
\<close>

type_synonym changes = "nat list"

record Analysis =
  initialize_bounds :: "Problem \<Rightarrow> error + Context"
  propagate_bounds :: "Problem \<Rightarrow> Context \<Rightarrow> changes option \<Rightarrow> error + (changes \<times> Context)"
  tighten_bounds :: "Problem \<Rightarrow> Context \<Rightarrow> changes \<Rightarrow> error + (changes \<times> Context)"
  polynomial_degree :: "Problem \<Rightarrow> Context \<Rightarrow> error + ((nat \<rightharpoonup> PolynomialDegree) \<times> Context)"
  propagate_special_structure :: "Problem \<Rightarrow> Context \<Rightarrow> error + Context"

subsection \<open>ModelInformation\<close>

record VariableInfo =
  vi_name :: string
  vi_type :: string
  vi_lower_bound :: "real option"
  vi_upper_bound :: "real option"

record ObjectiveInfo =
  oi_sense :: string
  oi_convexity :: Convexity
  oi_polynomial_degree :: PolynomialDegree
  oi_lower_bound :: "real option"
  oi_upper_bound :: "real option"

record ConstraintInfo =
  ci_type :: string
  ci_convexity :: Convexity
  ci_polynomial_degree :: PolynomialDegree

record ModelInformation =
  mi_name :: string
  mi_variables :: "VariableInfo dict"
  mi_objectives :: "ObjectiveInfo dict"
  mi_constraints :: "ConstraintInfo dict"

text \<open>The inner function \<open>_objtype\<close> of \<open>objtype\<close>; a failed \<open>assert\<close> raises.\<close>

definition inner_objtype :: "ObjectiveInfo \<Rightarrow> error + string" where
  "inner_objtype v =
     (let cvx = oi_convexity v; deg = oi_polynomial_degree v in
      if cvx_is_linear cvx then
        (if is_linear deg then Inr ''linear'' else Inl AssertionError)
      else if is_quadratic deg then Inr ''quadratic''
      else if is_polynomial deg then Inr ''polynomial''
      else Inr ''nonlinear'')"

text \<open>
  \<open>dict((k, _objtype(v)) for k, v in self.objectives.items())\<close>: the pairs are produced in
  the order of the items, the first failing one ends the call, and \<open>dict\<close> stores them
  one after the other.
\<close>

fun objtype_items :: "ObjectiveInfo dict \<Rightarrow> string dict \<Rightarrow> error + string dict" where
  "objtype_items [] acc = Inr acc"
| "objtype_items ((k, v) # rest) acc =
     (case inner_objtype v of
        Inl err \<Rightarrow> Inl err
      | Inr t \<Rightarrow> objtype_items rest (AList.update k t acc))"

definition objtype :: "ModelInformation \<Rightarrow> error + string dict" where
  "objtype self = objtype_items (mi_objectives self) []"

subsection \<open>detect_special_structure\<close>

text \<open>
  The bound loop, lines 102 to 107.  \<open>range(max_iter)\<close> has \<open>nat max_iter\<close> elements (none
  for a negative \<open>max_iter\<close>).  Beside the context the model returns one report for every
  round the loop entered: \<open>Round (len(changes_prop)) (len(changes_tigh))\<close> for a round that
  ran to its end, \<open>Raised\<close> for a round in which one of the two passes raised.
\<close>

datatype round = Round nat nat | Raised

fun bound_loop ::
  "Analysis \<Rightarrow> Problem \<Rightarrow> nat \<Rightarrow> Context \<Rightarrow> changes option \<Rightarrow>
     (error + Context) \<times> round list" where
  "bound_loop A problem 0 ctx changes_tigh = (Inr ctx, [])"
| "bound_loop A problem (Suc n) ctx changes_tigh =
     (case propagate_bounds A problem ctx changes_tigh of
        Inl err \<Rightarrow> (Inl err, [Raised])
      | Inr (changes_prop, ctx1) \<Rightarrow>
          (case tighten_bounds A problem ctx1 changes_prop of
             Inl err \<Rightarrow> (Inl err, [Raised])
           | Inr (changes_tigh1, ctx2) \<Rightarrow>
               if length changes_tigh1 = 0 \<and> length changes_prop = 0
               then (Inr ctx2, [Round (length changes_prop) (length changes_tigh1)])
               else
                 (let (r, rounds) = bound_loop A problem n ctx2 (Some changes_tigh1)
                  in (r, Round (length changes_prop) (length changes_tigh1) # rounds))))"

text \<open>
  Lines 101 to 110: the context is initialised, the bound loop runs, then the degree
  pass and the convexity pass.
\<close>

definition analyse ::
  "Analysis \<Rightarrow> Problem \<Rightarrow> int \<Rightarrow>
     (error + (Context \<times> (nat \<rightharpoonup> PolynomialDegree))) \<times> round list" where
  "analyse A problem max_iter =
     (case initialize_bounds A problem of
        Inl err \<Rightarrow> (Inl err, [])
      | Inr ctx \<Rightarrow>
          (case bound_loop A problem (nat max_iter) ctx None of
             (Inl err, rounds) \<Rightarrow> (Inl err, rounds)
           | (Inr ctx1, rounds) \<Rightarrow>
               (case polynomial_degree A problem ctx1 of
                  Inl err \<Rightarrow> (Inl err, rounds)
                | Inr (polynomial, ctx2) \<Rightarrow>
                    (case propagate_special_structure A problem ctx2 of
                       Inl err \<Rightarrow> (Inl err, rounds)
                     | Inr ctx3 \<Rightarrow> (Inr (ctx3, polynomial), rounds)))))"

text \<open>
  Lines 112 to 130.  \<open>warnings.warn\<close> appends to the list of warnings issued and goes on.
\<close>

definition variable_info :: "Context \<Rightarrow> string \<Rightarrow> Variable \<Rightarrow> error + VariableInfo" where
  "variable_info ctx variable_name variable =
     (let variable_type =
            (if is_binary variable then ''binary''
             else if is_integer variable then ''integer''
             else ''continuous'')
      in case bound ctx (ident variable) of
           None \<Rightarrow> Inl KeyError
         | Some var_bounds \<Rightarrow>
             Inr \<lparr>vi_name = variable_name, vi_type = variable_type,
                  vi_lower_bound = lower_bound var_bounds,
                  vi_upper_bound = upper_bound var_bounds\<rparr>)"

fun summarize_variables ::
  "Context \<Rightarrow> Variable dict \<Rightarrow> VariableInfo dict \<Rightarrow> string list \<Rightarrow>
     error + (VariableInfo dict \<times> string list)" where
  "summarize_variables ctx [] vars ws = Inr (vars, ws)"
| "summarize_variables ctx ((variable_name, variable) # rest) vars ws =
     (case variable_info ctx variable_name variable of
        Inl err \<Rightarrow> Inl err
      | Inr info \<Rightarrow>
          summarize_variables ctx rest (AList.update variable_name info vars)
            (if contains vars (name variable)
             then ws @ [''Duplicate variable '' @ name variable] else ws))"

text \<open>Lines 132 to 151.  The warning is issued before the lookups that may fail.\<close>

definition objective_info ::
  "Context \<Rightarrow> (nat \<rightharpoonup> PolynomialDegree) \<Rightarrow> Objective \<Rightarrow> error + ObjectiveInfo" where
  "objective_info ctx polynomial obj =
     (let sense_str = (if is_minimizing obj then ''min'' else ''max'');
          obj_bounds = (case bound ctx (ident obj) of
                          Some b \<Rightarrow> b
                        | None \<Rightarrow> \<lparr>lower_bound = None, upper_bound = None\<rparr>)
      in case convexity ctx (ident obj) of
           None \<Rightarrow> Inl KeyError
         | Some cvx \<Rightarrow>
             (case polynomial (ident obj) of
                None \<Rightarrow> Inl KeyError
              | Some poly \<Rightarrow>
                  Inr \<lparr>oi_sense = sense_str, oi_convexity = cvx,
                       oi_polynomial_degree = poly,
                       oi_lower_bound = lower_bound obj_bounds,
                       oi_upper_bound = upper_bound obj_bounds\<rparr>))"

fun summarize_objectives ::
  "Context \<Rightarrow> (nat \<rightharpoonup> PolynomialDegree) \<Rightarrow> Objective dict \<Rightarrow> ObjectiveInfo dict \<Rightarrow>
     string list \<Rightarrow> error + (ObjectiveInfo dict \<times> string list)" where
  "summarize_objectives ctx polynomial [] objs ws = Inr (objs, ws)"
| "summarize_objectives ctx polynomial ((obj_name, obj) # rest) objs ws =
     (let ws1 = (if contains objs obj_name
                 then ws @ [''Duplicate objective '' @ obj_name] else ws)
      in case objective_info ctx polynomial obj of
           Inl err \<Rightarrow> Inl err
         | Inr info \<Rightarrow>
             summarize_objectives ctx polynomial rest (AList.update (name obj) info objs) ws1)"

text \<open>Lines 153 to 170.\<close>

definition constraint_info ::
  "Context \<Rightarrow> (nat \<rightharpoonup> PolynomialDegree) \<Rightarrow> Constraint \<Rightarrow> error + ConstraintInfo" where
  "constraint_info ctx polynomial cons =
     (let type_str = (if is_equality cons then ''equality'' else ''inequality'')
      in case convexity ctx (ident cons) of
           None \<Rightarrow> Inl KeyError
         | Some cvx \<Rightarrow>
             (case polynomial (ident cons) of
                None \<Rightarrow> Inl KeyError
              | Some poly \<Rightarrow>
                  Inr \<lparr>ci_type = type_str, ci_convexity = cvx,
                       ci_polynomial_degree = poly\<rparr>))"

fun summarize_constraints ::
  "Context \<Rightarrow> (nat \<rightharpoonup> PolynomialDegree) \<Rightarrow> Constraint dict \<Rightarrow> ConstraintInfo dict \<Rightarrow>
     string list \<Rightarrow> error + (ConstraintInfo dict \<times> string list)" where
  "summarize_constraints ctx polynomial [] conss ws = Inr (conss, ws)"
| "summarize_constraints ctx polynomial ((cons_name, cons) # rest) conss ws =
     (let ws1 = (if contains conss cons_name
                 then ws @ [''Duplicate constraint '' @ cons_name] else ws)
      in case constraint_info ctx polynomial cons of
           Inl err \<Rightarrow> Inl err
         | Inr info \<Rightarrow>
             summarize_constraints ctx polynomial rest (AList.update cons_name info conss) ws1)"

text \<open>Lines 112 to 177: the three loops and the report.\<close>

definition summary ::
  "Problem \<Rightarrow> Context \<Rightarrow> (nat \<rightharpoonup> PolynomialDegree) \<Rightarrow>
     error + (ModelInformation \<times> string list)" where
  "summary problem ctx polynomial =
     (case summarize_variables ctx (variables problem) [] [] of
        Inl err \<Rightarrow> Inl err
      | Inr (vars, ws1) \<Rightarrow>
          (case summarize_objectives ctx polynomial (objectives problem) [] ws1 of
             Inl err \<Rightarrow> Inl err
           | Inr (objs, ws2) \<Rightarrow>
               (case summarize_constraints ctx polynomial (constraints problem) [] ws2 of
                  Inl err \<Rightarrow> Inl err
                | Inr (conss, ws3) \<Rightarrow>
                    Inr (\<lparr>mi_name = problem_name problem, mi_variables = vars,
                          mi_objectives = objs, mi_constraints = conss\<rparr>, ws3))))"

text \<open>
  The lookups of the three loops that raise when they miss: \<open>ctx.bound[variable]\<close> for a
  variable, \<open>ctx.convexity[obj]\<close> and \<open>polynomial[obj]\<close> for an objective and for a
  constraint.  \<open>lookups_hit\<close> holds when none of them misses.
\<close>

definition lookups_hit :: "Problem \<Rightarrow> Context \<Rightarrow> (nat \<rightharpoonup> PolynomialDegree) \<Rightarrow> bool" where
  "lookups_hit problem ctx poly \<longleftrightarrow>
     (\<forall>v \<in> snd ` set (variables problem). bound ctx (ident v) \<noteq> None)
   \<and> (\<forall>obj \<in> snd ` set (objectives problem).
         convexity ctx (ident obj) \<noteq> None \<and> poly (ident obj) \<noteq> None)
   \<and> (\<forall>c \<in> snd ` set (constraints problem).
         convexity ctx (ident c) \<noteq> None \<and> poly (ident c) \<noteq> None)"

text \<open>
  The whole function.  Its value is the report with the warnings issued, or the exception
  that ended the call, and beside it the reports of the rounds of the bound loop.
\<close>

definition detect_special_structure ::
  "Analysis \<Rightarrow> Problem \<Rightarrow> int \<Rightarrow>
     (error + (ModelInformation \<times> string list)) \<times> round list" where
  "detect_special_structure A problem max_iter =
     (case analyse A problem max_iter of
        (Inl err, rounds) \<Rightarrow> (Inl err, rounds)
      | (Inr (ctx, polynomial), rounds) \<Rightarrow> (summary problem ctx polynomial, rounds))"

text \<open>The default of the parameter: \<open>max_iter=10\<close>.\<close>

definition detect_special_structure_default ::
  "Analysis \<Rightarrow> Problem \<Rightarrow> (error + (ModelInformation \<times> string list)) \<times> round list" where
  "detect_special_structure_default A problem = detect_special_structure A problem 10"

section \<open>The claims read from the spec, and concrete inputs\<close>

text \<open>
  The spec's resolution policy (section 4.2), in the spec's words: the fallback matches
  the most specific registered supertype of the node's kind.  The most specific one is
  the first class of the expression's \<open>__mro__\<close> that is a key of the table.
\<close>

definition most_specific_registered :: "hierarchy \<Rightarrow> 'h table \<Rightarrow> expr \<Rightarrow> cls option" where
  "most_specific_registered H t e =
     List.find (\<lambda>T. T \<in> set (map fst t)) (mro H (expr_type e))"

text \<open>
  The spec's \<open>objtype\<close> (section 6), in the spec's words: linear if the convexity is
  linear and the degree is exactly 1; quadratic if the degree is 2; polynomial if the
  degree is finite and greater than 2; else nonlinear.
\<close>

definition objtype_spec :: "Convexity \<Rightarrow> PolynomialDegree \<Rightarrow> string" where
  "objtype_spec cvx deg =
     (if cvx = Linear \<and> degree deg = Some 1 then ''linear''
      else if degree deg = Some 2 then ''quadratic''
      else if (case degree deg of Some d \<Rightarrow> 2 < d | None \<Rightarrow> False) then ''polynomial''
      else ''nonlinear'')"

text \<open>
  A fragment of the expression classes of \<^verbatim>\<open>suspect.dag.expressions\<close>:
  \<open>SqrtExpression\<close> derives from \<open>UnaryFunctionExpression\<close>, which derives from
  \<open>Expression\<close>.
\<close>

definition H0 :: hierarchy where
  "H0 c =
     (if c = ''SqrtExpression'' then [''UnaryFunctionExpression'', ''Expression'']
      else if c = ''UnaryFunctionExpression'' then [''Expression'']
      else [])"

definition named :: "string \<Rightarrow> string callback" where
  "named s e = Inr (PyObj s)"

definition d0 :: "string Dispatcher" where
  "d0 = \<lparr>lookup = [(''Expression'', Some (named ''Expression'')),
                   (''UnaryFunctionExpression'', Some (named ''UnaryFunctionExpression''))],
         allow_missing = False\<rparr>"

text \<open>
  Visitor tables over the same classes.  The forward handler of \<open>Expression\<close> returns a
  value, that of \<open>Constant\<close> returns \<open>None\<close>.  The backward handler of \<open>Expression\<close>
  returns a \<open>dict\<close> with one entry for each of two children, that of \<open>Constant\<close> returns
  an object that is not a \<open>dict\<close>.  The merge callback \<open>record_call\<close> keeps, as its
  context, the list of the calls it received.
\<close>

definition fwd0 :: "(int, int fctx) handler table" where
  "fwd0 = [(''Expression'', Some (\<lambda>e ctx. Inr (PyObj 7, ctx))),
           (''Constant'', Some (\<lambda>e ctx. Inr (PyNone, ctx)))]"

definition bwd0 :: "(int, (expr \<times> int) list) handler table" where
  "bwd0 = [(''Expression'',
             Some (\<lambda>e ctx. Inr (PyDict [(Expr ''Variable'' 1, 5), (Expr ''Variable'' 2, 8)], ctx))),
           (''Constant'', Some (\<lambda>e ctx. Inr (PyObj 3, ctx)))]"

definition record_call :: "('v, (expr \<times> 'v) list) merge" where
  "record_call k v ctx = Inr (ctx @ [(k, v)])"

text \<open>
  A problem with one variable \<open>x\<close>, one constraint that is also named \<open>x\<close>, and two
  objectives that are both named \<open>cost\<close> (they sit under two keys of
  \<open>problem.objectives\<close>, as two entries of a \<open>dict\<close> must).
\<close>

definition p0 :: Problem where
  "p0 = \<lparr>problem_name = ''example'',
         variables = [(''x'', \<lparr>ident = 1, name = ''x'', domain = REALS\<rparr>)],
         objectives = [(''f'', \<lparr>ident = 2, name = ''cost'', sense = MINIMIZE\<rparr>),
                       (''g'', \<lparr>ident = 3, name = ''cost'', sense = MAXIMIZE\<rparr>)],
         constraints = [(''x'', \<lparr>ident = 4, name = ''x'', equality = True\<rparr>)]\<rparr>"

text \<open>
  Analysis passes that answer from fixed tables: the bounds the initialisation stores,
  the convexities the convexity pass stores, the degrees the degree pass returns, and
  the changes the propagation reports as a function of the changes it is handed.  The
  tightening reports no change.
\<close>

definition fixed_analysis ::
  "(nat \<times> Bound) list \<Rightarrow> (nat \<times> Convexity) list \<Rightarrow> (nat \<times> PolynomialDegree) list \<Rightarrow>
     (changes option \<Rightarrow> changes) \<Rightarrow> Analysis" where
  "fixed_analysis bs cs ds report =
     \<lparr>initialize_bounds = (\<lambda>problem. Inr \<lparr>bound = map_of bs, convexity = Map.empty\<rparr>),
      propagate_bounds = (\<lambda>problem ctx changes_tigh. Inr (report changes_tigh, ctx)),
      tighten_bounds = (\<lambda>problem ctx changes_prop. Inr ([], ctx)),
      polynomial_degree = (\<lambda>problem ctx. Inr (map_of ds, ctx)),
      propagate_special_structure = (\<lambda>problem ctx. Inr (ctx\<lparr>convexity := map_of cs\<rparr>))\<rparr>"

definition bounds0 :: "(nat \<times> Bound) list" where
  "bounds0 = [(1, \<lparr>lower_bound = Some 0, upper_bound = Some 5\<rparr>)]"

definition degrees0 :: "(nat \<times> PolynomialDegree) list" where
  "degrees0 = [(2, PolynomialDegree (Some 2)), (3, PolynomialDegree (Some 1)),
               (4, PolynomialDegree (Some 1))]"

definition A0 :: Analysis where
  "A0 = fixed_analysis bounds0 [(2, Convex), (3, Convex), (4, Linear)] degrees0 (\<lambda>ct. [])"

definition A_linear :: Analysis where
  "A_linear = fixed_analysis bounds0 [(2, Convex), (3, Linear), (4, Linear)] degrees0 (\<lambda>ct. [])"

definition A_assert :: Analysis where
  "A_assert = fixed_analysis bounds0 [(2, Linear), (3, Linear), (4, Linear)]
                [(2, PolynomialDegree (Some 1)), (3, PolynomialDegree (Some 2)),
                 (4, PolynomialDegree (Some 1))] (\<lambda>ct. [])"

definition A_unbounded :: Analysis where
  "A_unbounded = fixed_analysis [] [(2, Convex), (3, Convex), (4, Linear)] degrees0 (\<lambda>ct. [])"

definition A_twice :: Analysis where
  "A_twice = fixed_analysis bounds0 [(2, Convex), (3, Convex), (4, Linear)] degrees0
               (\<lambda>ct. if ct = None then [1] else [])"

definition A_never :: Analysis where
  "A_never = fixed_analysis bounds0 [(2, Convex), (3, Convex), (4, Linear)] degrees0 (\<lambda>ct. [1])"

section \<open>Properties of the dispatch engine\<close>

subsection \<open>Auxiliary facts\<close>

lemma first_instance_None:
  "first_instance H t e = None \<longleftrightarrow> (\<forall>T \<in> set (map fst t). \<not> isinstance H e T)"
  by (induction t) (auto split: if_splits)

lemma isinstance_own_type: "isinstance H e (expr_type e)"
  by (simp add: isinstance_def mro_def)

lemma dict_get_unregistered: "k \<notin> set (map fst d) \<Longrightarrow> dict_get d k = None"
  by (simp add: dict_get_def map_of_eq_None_iff[THEN iffD2])

lemma visit_unregistered:
  "\<forall>T \<in> set (map fst t). \<not> isinstance H e T \<Longrightarrow> visit H t e c = Inr (PyNone, c)"
proof -
  assume a: "\<forall>T \<in> set (map fst t). \<not> isinstance H e T"
  then have "expr_type e \<notin> set (map fst t)"
    using isinstance_own_type by blast
  then have g: "dict_get t (expr_type e) = None"
    by (rule dict_get_unregistered)
  from a have f: "first_instance H t e = None"
    by (simp only: first_instance_None)
  show ?thesis by (simp add: visit_def g f)
qed

lemma handle_items_total:
  "\<forall>k v c. handle_result k v c = Inr (f k v c) \<Longrightarrow>
     handle_items handle_result items ctx = Inr (foldl (\<lambda>c (k, v). f k v c) ctx items)"
  by (induction items arbitrary: ctx) auto

lemma handle_items_record_call: "handle_items record_call items ctx = Inr (ctx @ items)"
  by (induction items arbitrary: ctx) (auto simp: record_call_def)

subsection \<open>The claims\<close>

text \<open>
  Claim C1.  The spec asks that the fallback of \<open>dispatch\<close> resolve to the most specific
  registered supertype, whatever the order of registration.  The code scans the table in
  iteration order and leaves at the first class the expression is an instance of (its own
  comment says that this ``could cause unexpected behaviour'').  With \<open>Expression\<close>
  registered before \<open>UnaryFunctionExpression\<close>, a \<open>SqrtExpression\<close> is dispatched to the
  handler of \<open>Expression\<close>, although \<open>UnaryFunctionExpression\<close> is the most specific
  registered supertype; with the two registered in the other order it is dispatched to the
  handler of \<open>UnaryFunctionExpression\<close>.
\<close>

theorem dispatch_first_registered_supertype:
  "dispatch H0 d0 (Expr ''SqrtExpression'' 0) = Inr (PyObj ''Expression'')
 \<and> most_specific_registered H0 (lookup d0) (Expr ''SqrtExpression'' 0)
      = Some ''UnaryFunctionExpression''
 \<and> dispatch H0 (d0\<lparr>lookup := rev (lookup d0)\<rparr>) (Expr ''SqrtExpression'' 0)
      = Inr (PyObj ''UnaryFunctionExpression'')"
  by (simp add: dispatch_def dict_get_def d0_def isinstance_def mro_def H0_def named_def
      most_specific_registered_def)

text \<open>
  Claim C6.  When no key of the table is a class of the expression (neither its own class
  nor a supertype), \<open>dispatch\<close> raises the lookup failure if \<open>allow_missing\<close> is not set and
  returns \<open>None\<close> if it is set.  The failure is the value of the call: nothing catches it
  and nothing is tried again.
\<close>

theorem dispatch_no_handler:
  assumes "\<forall>T \<in> set (map fst (lookup self)). \<not> isinstance H e T"
  shows "dispatch H self e =
           (if allow_missing self then Inr PyNone
            else Inl (RuntimeError ''Could not find callback''))"
proof -
  from assms have "expr_type e \<notin> set (map fst (lookup self))"
    using isinstance_own_type by blast
  then have g: "dict_get (lookup self) (expr_type e) = None"
    by (rule dict_get_unregistered)
  from assms have f: "first_instance H (lookup self) e = None"
    by (simp only: first_instance_None)
  show ?thesis
    by (simp add: dispatch_def g f)
qed

theorem dispatch_no_handler_witness:
  "map fst (lookup d0) = [''Expression'', ''UnaryFunctionExpression'']
   \<and> \<not> isinstance H0 (Expr ''Variable'' 3) ''Expression''
   \<and> \<not> isinstance H0 (Expr ''Variable'' 3) ''UnaryFunctionExpression''
   \<and> dispatch H0 d0 (Expr ''Variable'' 3) = Inl (RuntimeError ''Could not find callback'')
   \<and> dispatch H0 (d0\<lparr>allow_missing := True\<rparr>) (Expr ''Variable'' 3) = Inr PyNone"
proof -
  have h: "\<forall>T \<in> set (map fst (lookup d0)). \<not> isinstance H0 (Expr ''Variable'' 3) T"
    by (simp add: d0_def isinstance_def mro_def H0_def)
  have h': "\<forall>T \<in> set (map fst (lookup (d0\<lparr>allow_missing := True\<rparr>))). \<not> isinstance H0 (Expr ''Variable'' 3) T"
    using h by simp
  have k: "map fst (lookup d0) = [''Expression'', ''UnaryFunctionExpression'']"
    by (simp add: d0_def)
  show ?thesis
    using h k dispatch_no_handler [OF h] dispatch_no_handler [OF h']
    by (simp add: d0_def)
qed

text \<open>
  Claim C7.  \<open>ForwardVisitor.__call__\<close> adds to what \<open>visit\<close> did exactly this: when the
  handler's result is not \<open>None\<close>, the result is stored in the context under the
  expression itself and returned; when the result is \<open>None\<close>, the context is the one the
  handler handed back, with nothing written to it; an exception of the handler goes
  through.
\<close>

theorem ForwardVisitor_stores_result:
  "(visit H registered_handlers e ctx = Inr (result, ctx1) \<and> result \<noteq> PyNone \<longrightarrow>
      ForwardVisitor_call H registered_handlers e ctx = Inr (result, ctx1(e \<mapsto> result)))
 \<and> (visit H registered_handlers e ctx = Inr (PyNone, ctx1) \<longrightarrow>
      ForwardVisitor_call H registered_handlers e ctx = Inr (PyNone, ctx1))
 \<and> (visit H registered_handlers e ctx = Inl err \<longrightarrow>
      ForwardVisitor_call H registered_handlers e ctx = Inl err)"
  by (simp add: ForwardVisitor_call_def)

theorem ForwardVisitor_stores_result_witness:
  "visit H0 fwd0 (Expr ''SqrtExpression'' 9) Map.empty = Inr (PyObj 7, Map.empty)
 \<and> ForwardVisitor_call H0 fwd0 (Expr ''SqrtExpression'' 9) Map.empty
      = Inr (PyObj 7, [Expr ''SqrtExpression'' 9 \<mapsto> PyObj 7])
 \<and> visit H0 fwd0 (Expr ''Constant'' 4) [Expr ''Variable'' 1 \<mapsto> PyObj 2]
      = Inr (PyNone, [Expr ''Variable'' 1 \<mapsto> PyObj 2])
 \<and> ForwardVisitor_call H0 fwd0 (Expr ''Constant'' 4) [Expr ''Variable'' 1 \<mapsto> PyObj 2]
      = Inr (PyNone, [Expr ''Variable'' 1 \<mapsto> PyObj 2])"
proof -
  have v1: "visit H0 fwd0 (Expr ''SqrtExpression'' 9) Map.empty = Inr (PyObj 7, Map.empty)"
    by (simp add: visit_def dict_get_def fwd0_def isinstance_def mro_def H0_def)
  have v2: "visit H0 fwd0 (Expr ''Constant'' 4) [Expr ''Variable'' 1 \<mapsto> PyObj 2]
              = Inr (PyNone, [Expr ''Variable'' 1 \<mapsto> PyObj 2])"
    by (simp add: visit_def dict_get_def fwd0_def)
  show ?thesis
    using v1 v2
      ForwardVisitor_stores_result [of H0 fwd0 "Expr ''SqrtExpression'' 9" Map.empty "PyObj 7" Map.empty]
      ForwardVisitor_stores_result [of H0 fwd0 "Expr ''Constant'' 4" "[Expr ''Variable'' 1 \<mapsto> PyObj 2]"
        PyNone "[Expr ''Variable'' 1 \<mapsto> PyObj 2]"]
    by simp
qed

text \<open>
  Claim C5.  When the backward handler returns a \<open>dict\<close>, \<open>BackwardVisitor.__call__\<close> passes
  the entries to \<open>handle_result\<close> one after the other, in the order of the \<open>dict\<close>, each
  exactly once, and the context is what these calls make of it (for a merge callback that
  always returns, the fold of the callback over the entries; for the callback that records
  its calls, the entries themselves).  When the handler returns a value that is neither a
  \<open>dict\<close> nor \<open>None\<close>, the call raises.
\<close>

theorem BackwardVisitor_applies_entries:
  "(visit H registered_handlers e ctx = Inr (PyDict items, ctx_h)
      \<and> (\<forall>k v c. handle_result k v c = Inr (f k v c)) \<longrightarrow>
      BackwardVisitor_call H handle_result registered_handlers e ctx
        = Inr (PyDict items, foldl (\<lambda>c (k, v). f k v c) ctx_h items))
 \<and> (visit H registered_handlers e ctx = Inr (PyObj x, ctx_h) \<longrightarrow>
      BackwardVisitor_call H handle_result registered_handlers e ctx
        = Inl (RuntimeError ''BackwardVisitor must return dict''))
 \<and> (visit H recording e calls = Inr (PyDict items, calls_h) \<longrightarrow>
      BackwardVisitor_call H record_call recording e calls = Inr (PyDict items, calls_h @ items))"
proof (intro conjI impI)
  assume a: "visit H registered_handlers e ctx = Inr (PyDict items, ctx_h)
      \<and> (\<forall>k v c. handle_result k v c = Inr (f k v c))"
  then have "handle_items handle_result items ctx_h
               = Inr (foldl (\<lambda>c (k, v). f k v c) ctx_h items)"
    by (intro handle_items_total) simp
  with a show "BackwardVisitor_call H handle_result registered_handlers e ctx
        = Inr (PyDict items, foldl (\<lambda>c (k, v). f k v c) ctx_h items)"
    by (simp add: BackwardVisitor_call_def)
next
  assume "visit H registered_handlers e ctx = Inr (PyObj x, ctx_h)"
  then show "BackwardVisitor_call H handle_result registered_handlers e ctx
        = Inl (RuntimeError ''BackwardVisitor must return dict'')"
    by (simp add: BackwardVisitor_call_def)
next
  assume "visit H recording e calls = Inr (PyDict items, calls_h)"
  then show "BackwardVisitor_call H record_call recording e calls
        = Inr (PyDict items, calls_h @ items)"
    by (simp add: BackwardVisitor_call_def handle_items_record_call)
qed

theorem BackwardVisitor_applies_entries_witness:
  "visit H0 bwd0 (Expr ''SqrtExpression'' 9) []
     = Inr (PyDict [(Expr ''Variable'' 1, 5), (Expr ''Variable'' 2, 8)], [])
 \<and> BackwardVisitor_call H0 record_call bwd0 (Expr ''SqrtExpression'' 9) []
     = Inr (PyDict [(Expr ''Variable'' 1, 5), (Expr ''Variable'' 2, 8)],
            [(Expr ''Variable'' 1, 5), (Expr ''Variable'' 2, 8)])
 \<and> visit H0 bwd0 (Expr ''Constant'' 4) [] = Inr (PyObj 3, [])
 \<and> BackwardVisitor_call H0 record_call bwd0 (Expr ''Constant'' 4) []
     = Inl (RuntimeError ''BackwardVisitor must return dict'')"
proof -
  have v1: "visit H0 bwd0 (Expr ''SqrtExpression'' 9) []
              = Inr (PyDict [(Expr ''Variable'' 1, 5), (Expr ''Variable'' 2, 8)], [])"
    by (simp add: visit_def dict_get_def bwd0_def isinstance_def mro_def H0_def)
  have v2: "visit H0 bwd0 (Expr ''Constant'' 4) [] = Inr (PyObj 3, [])"
    by (simp add: visit_def dict_get_def bwd0_def)
  have t: "\<forall>k v c. record_call k v c = Inr (c @ [(k, v)])"
    by (simp add: record_call_def)
  show ?thesis
    using v1 v2 t
      BackwardVisitor_applies_entries [where H = H0 and registered_handlers = bwd0
        and e = "Expr ''SqrtExpression'' 9" and ctx = "[]" and ctx_h = "[]"
        and items = "[(Expr ''Variable'' 1, 5), (Expr ''Variable'' 2, 8)]"
        and handle_result = record_call and f = "\<lambda>k v c. c @ [(k, v)]"]
      BackwardVisitor_applies_entries [where H = H0 and registered_handlers = bwd0
        and e = "Expr ''Constant'' 4" and ctx = "[]" and ctx_h = "[]" and x = 3
        and handle_result = record_call]
    by simp
qed

text \<open>
  Claim C9.  \<open>Visitor.visit\<close> has no \<open>allow_missing\<close> switch.  For an expression none of
  whose classes is a key of the table it returns \<open>None\<close> and leaves the context as it
  was, and so do \<open>Visitor.__call__\<close>, \<open>ForwardVisitor.__call__\<close> and
  \<open>BackwardVisitor.__call__\<close>: none of them raises.
\<close>

theorem visit_no_handler:
  assumes "\<forall>T \<in> set (map fst hs). \<not> isinstance H e T"
      and "\<forall>T \<in> set (map fst fs). \<not> isinstance H e T"
      and "\<forall>T \<in> set (map fst bs). \<not> isinstance H e T"
  shows "visit H hs e ctx = Inr (PyNone, ctx)
       \<and> Visitor_call H hs e ctx = Inr (PyNone, ctx)
       \<and> ForwardVisitor_call H fs e fctx = Inr (PyNone, fctx)
       \<and> BackwardVisitor_call H handle_result bs e bctx = Inr (PyNone, bctx)"
  by (simp add: visit_unregistered[OF assms(1)] visit_unregistered[OF assms(2)]
      visit_unregistered[OF assms(3)] Visitor_call_def ForwardVisitor_call_def
      BackwardVisitor_call_def)

theorem visit_no_handler_witness:
  "map fst fwd0 = [''Expression'', ''Constant'']
 \<and> map fst bwd0 = [''Expression'', ''Constant'']
 \<and> \<not> isinstance H0 (Expr ''Variable'' 3) ''Expression''
 \<and> \<not> isinstance H0 (Expr ''Variable'' 3) ''Constant''
 \<and> visit H0 fwd0 (Expr ''Variable'' 3) [Expr ''Variable'' 1 \<mapsto> PyObj 2]
      = Inr (PyNone, [Expr ''Variable'' 1 \<mapsto> PyObj 2])
 \<and> ForwardVisitor_call H0 fwd0 (Expr ''Variable'' 3) [Expr ''Variable'' 1 \<mapsto> PyObj 2]
      = Inr (PyNone, [Expr ''Variable'' 1 \<mapsto> PyObj 2])
 \<and> BackwardVisitor_call H0 record_call bwd0 (Expr ''Variable'' 3) [(Expr ''Variable'' 1, 6)]
      = Inr (PyNone, [(Expr ''Variable'' 1, 6)])"
proof -
  have f: "\<forall>T \<in> set (map fst fwd0). \<not> isinstance H0 (Expr ''Variable'' 3) T"
    by (simp add: fwd0_def isinstance_def mro_def H0_def)
  have b: "\<forall>T \<in> set (map fst bwd0). \<not> isinstance H0 (Expr ''Variable'' 3) T"
    by (simp add: bwd0_def isinstance_def mro_def H0_def)
  have kf: "map fst fwd0 = [''Expression'', ''Constant'']"
    by (simp add: fwd0_def)
  have kb: "map fst bwd0 = [''Expression'', ''Constant'']"
    by (simp add: bwd0_def)
  show ?thesis
    using f b kf kb
      visit_no_handler [OF f f b, of "[Expr ''Variable'' 1 \<mapsto> PyObj 2]"
        "[Expr ''Variable'' 1 \<mapsto> PyObj 2]" record_call "[(Expr ''Variable'' 1, 6)]"]
    by simp
qed


section \<open>Properties of the bound iteration\<close>

text \<open>
  The loop of \<open>detect_special_structure\<close> is \<open>bound_loop\<close>; the list it returns beside its
  result has one entry for each round that was started, with the two counts of changes of
  the round, or \<open>Raised\<close> for a round in which a pass raised.
\<close>

lemmas example_defs =
  detect_special_structure_def analyse_def summary_def fixed_analysis_def
  A0_def A_linear_def A_assert_def A_unbounded_def A_twice_def A_never_def
  p0_def bounds0_def degrees0_def variable_info_def objective_info_def constraint_info_def
  contains_def is_binary_def is_integer_def is_minimizing_def is_equality_def

lemma bound_loop_length: "length (snd (bound_loop A p n ctx ct)) \<le> n"
  by (induction n arbitrary: ctx ct) (auto simp: case_prod_beta split: sum.splits)

lemma bound_loop_continues:
  "Suc i < length (snd (bound_loop A p n ctx ct)) \<Longrightarrow>
     \<exists>a b. snd (bound_loop A p n ctx ct) ! i = Round a b \<and> (a \<noteq> 0 \<or> b \<noteq> 0)"
proof (induction n arbitrary: ctx ct i)
  case 0
  then show ?case by simp
next
  case (Suc n)
  then show ?case
    by (cases i) (auto simp: case_prod_beta split: sum.splits if_splits)
qed

lemma bound_loop_early:
  "fst (bound_loop A p n ctx ct) = Inr c \<Longrightarrow> length (snd (bound_loop A p n ctx ct)) < n \<Longrightarrow>
     snd (bound_loop A p n ctx ct) \<noteq> [] \<and> last (snd (bound_loop A p n ctx ct)) = Round 0 0"
proof (induction n arbitrary: ctx ct)
  case 0
  then show ?case by simp
next
  case (Suc n)
  then show ?case
    by (auto simp: case_prod_beta split: sum.splits if_splits)
qed

lemma bound_loop_cap:
  "\<forall>r \<in> set (snd (bound_loop A p n ctx ct)). \<exists>a b. r = Round a b \<and> (a \<noteq> 0 \<or> b \<noteq> 0) \<Longrightarrow>
     (\<exists>c. fst (bound_loop A p n ctx ct) = Inr c) \<and> length (snd (bound_loop A p n ctx ct)) = n"
proof (induction n arbitrary: ctx ct)
  case 0
  then show ?case by simp
next
  case (Suc n)
  then show ?case
    by (auto simp: case_prod_beta split: sum.splits if_splits)
qed

lemma snd_detect:
  "snd (detect_special_structure A p m) =
     (case initialize_bounds A p of Inl err \<Rightarrow> [] | Inr ctx \<Rightarrow> snd (bound_loop A p (nat m) ctx None))"
  by (auto simp: detect_special_structure_def analyse_def split: sum.splits prod.splits)

lemma detect_ok_loop_ok:
  "fst (detect_special_structure A p m) = Inr r \<Longrightarrow>
     \<exists>ctx c. initialize_bounds A p = Inr ctx \<and> fst (bound_loop A p (nat m) ctx None) = Inr c"
  by (auto simp: detect_special_structure_def analyse_def split: sum.splits prod.splits)

text \<open>
  Claim C4.  \<open>detect_special_structure\<close> runs at most \<open>max_iter\<close> rounds of propagation and
  tightening.  Every round but the last one reported a change (the loop only goes on after
  a round in which one of the two passes changed something), and when the analysis returns
  after fewer than \<open>max_iter\<close> rounds, the last round is one in which neither pass changed
  anything.  Called without \<open>max_iter\<close>, the function uses 10.
\<close>

theorem detect_rounds:
  "(let rounds = snd (detect_special_structure A problem max_iter) in
      length rounds \<le> nat max_iter
    \<and> (\<forall>i. Suc i < length rounds \<longrightarrow> (\<exists>a b. rounds ! i = Round a b \<and> (a \<noteq> 0 \<or> b \<noteq> 0)))
    \<and> ((\<exists>r. fst (detect_special_structure A problem max_iter) = Inr r) \<and> length rounds < nat max_iter
         \<longrightarrow> rounds \<noteq> [] \<and> last rounds = Round 0 0))
   \<and> detect_special_structure_default A problem = detect_special_structure A problem 10"
proof (cases "initialize_bounds A problem")
  case (Inl err)
  then show ?thesis
    by (auto simp: Let_def snd_detect detect_special_structure_default_def dest: detect_ok_loop_ok)
next
  case (Inr ctx)
  then have s: "snd (detect_special_structure A problem max_iter) = snd (bound_loop A problem (nat max_iter) ctx None)"
    by (simp add: snd_detect)
  have 1: "length (snd (bound_loop A problem (nat max_iter) ctx None)) \<le> nat max_iter"
    by (rule bound_loop_length)
  have 2: "\<forall>i. Suc i < length (snd (bound_loop A problem (nat max_iter) ctx None)) \<longrightarrow>
      (\<exists>a b. snd (bound_loop A problem (nat max_iter) ctx None) ! i = Round a b \<and> (a \<noteq> 0 \<or> b \<noteq> 0))"
    using bound_loop_continues by blast
  have 3: "(\<exists>r. fst (detect_special_structure A problem max_iter) = Inr r)
       \<and> length (snd (bound_loop A problem (nat max_iter) ctx None)) < nat max_iter
      \<longrightarrow> snd (bound_loop A problem (nat max_iter) ctx None) \<noteq> [] \<and>
          last (snd (bound_loop A problem (nat max_iter) ctx None)) = Round 0 0"
  proof (intro impI, elim conjE exE)
    fix r assume ok: "fst (detect_special_structure A problem max_iter) = Inr r"
      and lt: "length (snd (bound_loop A problem (nat max_iter) ctx None)) < nat max_iter"
    from detect_ok_loop_ok[OF ok] Inr obtain c where
      "fst (bound_loop A problem (nat max_iter) ctx None) = Inr c" by auto
    from bound_loop_early[OF this lt] show "snd (bound_loop A problem (nat max_iter) ctx None) \<noteq> [] \<and>
          last (snd (bound_loop A problem (nat max_iter) ctx None)) = Round 0 0" .
  qed
  show ?thesis
    unfolding Let_def s detect_special_structure_default_def
    using 1 2 3 by blast
qed

theorem detect_rounds_witness:
  "(\<exists>r. fst (detect_special_structure A_twice p0 10) = Inr r)
 \<and> snd (detect_special_structure A_twice p0 10) = [Round 1 0, Round 0 0]
 \<and> length (snd (detect_special_structure A_twice p0 10)) < nat 10
 \<and> last (snd (detect_special_structure A_twice p0 10)) = Round 0 0"
proof -
  have s: "snd (detect_special_structure A_twice p0 10) = [Round 1 0, Round 0 0]"
    by (simp add: example_defs eval_nat_numeral)
  have f: "\<exists>r. fst (detect_special_structure A_twice p0 10) = Inr r"
    by (simp add: example_defs eval_nat_numeral)
  show ?thesis
    using s f detect_rounds [of A_twice p0 10]
    by (simp add: Let_def)
qed

text \<open>
  Claim C8.  When every round that is run reports a change, the loop runs \<open>max_iter\<close>
  rounds and then returns normally with the context of the last round: reaching the cap is
  not a failure.  The analysis goes on with the polynomial degrees, the propagation of the
  special structure and the summary, and its outcome is the outcome of these three steps.
\<close>

theorem cap_is_not_an_error:
  assumes init: "initialize_bounds A problem = Inr ctx0"
      and rounds: "snd (bound_loop A problem (nat max_iter) ctx0 None) = rounds"
      and never: "\<forall>r \<in> set rounds. \<exists>a b. r = Round a b \<and> (a \<noteq> 0 \<or> b \<noteq> 0)"
  shows "\<exists>ctx_l. bound_loop A problem (nat max_iter) ctx0 None = (Inr ctx_l, rounds)
           \<and> length rounds = nat max_iter
           \<and> detect_special_structure A problem max_iter =
               ((case polynomial_degree A problem ctx_l of
                   Inl err \<Rightarrow> Inl err
                 | Inr (polynomial, ctx_d) \<Rightarrow>
                     (case propagate_special_structure A problem ctx_d of
                        Inl err \<Rightarrow> Inl err
                      | Inr ctx_s \<Rightarrow> summary problem ctx_s polynomial)), rounds)"
proof -
  from never rounds
  have "\<forall>r \<in> set (snd (bound_loop A problem (nat max_iter) ctx0 None)).
          \<exists>a b. r = Round a b \<and> (a \<noteq> 0 \<or> b \<noteq> 0)"
    by simp
  from bound_loop_cap[OF this] rounds obtain ctx_l where
    ok: "fst (bound_loop A problem (nat max_iter) ctx0 None) = Inr ctx_l" and
    len: "length rounds = nat max_iter"
    by auto
  from ok rounds have l: "bound_loop A problem (nat max_iter) ctx0 None = (Inr ctx_l, rounds)"
    by (metis prod.collapse)
  have "detect_special_structure A problem max_iter =
               ((case polynomial_degree A problem ctx_l of
                   Inl err \<Rightarrow> Inl err
                 | Inr (polynomial, ctx_d) \<Rightarrow>
                     (case propagate_special_structure A problem ctx_d of
                        Inl err \<Rightarrow> Inl err
                      | Inr ctx_s \<Rightarrow> summary problem ctx_s polynomial)), rounds)"
    by (simp add: detect_special_structure_def analyse_def init l split: sum.splits prod.splits)
  with l len show ?thesis by blast
qed

theorem cap_is_not_an_error_witness:
  "initialize_bounds A_never p0 = Inr \<lparr>bound = map_of bounds0, convexity = Map.empty\<rparr>
 \<and> snd (bound_loop A_never p0 (nat 3) \<lparr>bound = map_of bounds0, convexity = Map.empty\<rparr> None)
      = [Round 1 0, Round 1 0, Round 1 0]
 \<and> (\<exists>r. detect_special_structure A_never p0 3 = (Inr r, [Round 1 0, Round 1 0, Round 1 0]))"
proof -
  have i: "initialize_bounds A_never p0 = Inr \<lparr>bound = map_of bounds0, convexity = Map.empty\<rparr>"
    by (simp add: A_never_def fixed_analysis_def)
  have r: "snd (bound_loop A_never p0 (nat 3) \<lparr>bound = map_of bounds0, convexity = Map.empty\<rparr> None)
             = [Round 1 0, Round 1 0, Round 1 0]"
    by (simp add: A_never_def fixed_analysis_def eval_nat_numeral)
  have n: "\<forall>r \<in> set [Round 1 0, Round 1 0, Round 1 0]. \<exists>a b. r = Round a b \<and> (a \<noteq> 0 \<or> b \<noteq> 0)"
    by simp
  from cap_is_not_an_error [OF i r n] obtain ctx_l where
    l: "bound_loop A_never p0 (nat 3) \<lparr>bound = map_of bounds0, convexity = Map.empty\<rparr> None
          = (Inr ctx_l, [Round 1 0, Round 1 0, Round 1 0])" and
    d: "detect_special_structure A_never p0 3 =
               ((case polynomial_degree A_never p0 ctx_l of
                   Inl err \<Rightarrow> Inl err
                 | Inr (polynomial, ctx_d) \<Rightarrow>
                     (case propagate_special_structure A_never p0 ctx_d of
                        Inl err \<Rightarrow> Inl err
                      | Inr ctx_s \<Rightarrow> summary p0 ctx_s polynomial)), [Round 1 0, Round 1 0, Round 1 0])"
    by blast
  have full: "bound_loop A_never p0 (nat 3) \<lparr>bound = map_of bounds0, convexity = Map.empty\<rparr> None
          = (Inr \<lparr>bound = map_of bounds0, convexity = Map.empty\<rparr>, [Round 1 0, Round 1 0, Round 1 0])"
    by (simp add: A_never_def fixed_analysis_def eval_nat_numeral)
  with l have c: "ctx_l = \<lparr>bound = map_of bounds0, convexity = Map.empty\<rparr>"
    by simp
  have "\<exists>r. (case polynomial_degree A_never p0 ctx_l of
                   Inl err \<Rightarrow> Inl err
                 | Inr (polynomial, ctx_d) \<Rightarrow>
                     (case propagate_special_structure A_never p0 ctx_d of
                        Inl err \<Rightarrow> Inl err
                      | Inr ctx_s \<Rightarrow> summary p0 ctx_s polynomial)) = Inr r"
    unfolding c by (simp add: example_defs)
  with i r d show ?thesis by auto
qed

section \<open>Properties of the summary\<close>

text \<open>
  Each of the three loops of the summary leaves, under a key, what its last item with that
  key produced: \<open>d[k] = v\<close> replaces an entry that is there.  The variables and the
  constraints are stored under the key of the item, the objectives under the name of the
  objective.
\<close>

lemma find_snoc:
  "List.find P (xs @ [x]) =
     (case List.find P xs of Some y \<Rightarrow> Some y | None \<Rightarrow> if P x then Some x else None)"
  by (induction xs) auto

lemma summarize_variables_last:
  "summarize_variables ctx items vars ws = Inr (vars', ws') \<Longrightarrow>
     (case List.find (\<lambda>(k, v). k = n) (rev items) of
        None \<Rightarrow> map_of vars' n = map_of vars n
      | Some (k, v) \<Rightarrow> \<exists>e. variable_info ctx k v = Inr e \<and> map_of vars' n = Some e)"
proof (induction items arbitrary: vars ws)
  case Nil
  then show ?case by simp
next
  case (Cons item rest)
  obtain k v where item: "item = (k, v)" by (cases item)
  from Cons.prems item obtain e where
    e: "variable_info ctx k v = Inr e" and
    r: "summarize_variables ctx rest (AList.update k e vars)
          (if contains vars (name v) then ws @ [''Duplicate variable '' @ name v] else ws)
        = Inr (vars', ws')"
    by (auto split: sum.splits)
  from Cons.IH[OF r] e show ?case
    by (auto simp: item find_snoc AList.update_conv' split: option.splits if_splits)
qed

lemma summarize_objectives_last:
  "summarize_objectives ctx poly items objs ws = Inr (objs', ws') \<Longrightarrow>
     (case List.find (\<lambda>(k, obj). name obj = n) (rev items) of
        None \<Rightarrow> map_of objs' n = map_of objs n
      | Some (k, obj) \<Rightarrow> \<exists>e. objective_info ctx poly obj = Inr e \<and> map_of objs' n = Some e)"
proof (induction items arbitrary: objs ws)
  case Nil
  then show ?case by simp
next
  case (Cons item rest)
  obtain k obj where item: "item = (k, obj)" by (cases item)
  from Cons.prems item obtain e where
    e: "objective_info ctx poly obj = Inr e" and
    r: "summarize_objectives ctx poly rest (AList.update (name obj) e objs)
          (if contains objs k then ws @ [''Duplicate objective '' @ k] else ws)
        = Inr (objs', ws')"
    by (auto simp: Let_def split: sum.splits)
  from Cons.IH[OF r] e show ?case
    by (auto simp: item find_snoc AList.update_conv' split: option.splits if_splits)
qed

lemma summarize_constraints_last:
  "summarize_constraints ctx poly items conss ws = Inr (conss', ws') \<Longrightarrow>
     (case List.find (\<lambda>(k, c). k = n) (rev items) of
        None \<Rightarrow> map_of conss' n = map_of conss n
      | Some (k, c) \<Rightarrow> \<exists>e. constraint_info ctx poly c = Inr e \<and> map_of conss' n = Some e)"
proof (induction items arbitrary: conss ws)
  case Nil
  then show ?case by simp
next
  case (Cons item rest)
  obtain k c where item: "item = (k, c)" by (cases item)
  from Cons.prems item obtain e where
    e: "constraint_info ctx poly c = Inr e" and
    r: "summarize_constraints ctx poly rest (AList.update k e conss)
          (if contains conss k then ws @ [''Duplicate constraint '' @ k] else ws)
        = Inr (conss', ws')"
    by (auto simp: Let_def split: sum.splits)
  from Cons.IH[OF r] e show ?case
    by (auto simp: item find_snoc AList.update_conv' split: option.splits if_splits)
qed

lemma summary_parts:
  "summary problem ctx poly = Inr (info, ws) \<Longrightarrow>
     \<exists>ws1 ws2.
       summarize_variables ctx (variables problem) [] [] = Inr (mi_variables info, ws1)
     \<and> summarize_objectives ctx poly (objectives problem) [] ws1 = Inr (mi_objectives info, ws2)
     \<and> summarize_constraints ctx poly (constraints problem) [] ws2 = Inr (mi_constraints info, ws)
     \<and> mi_name info = problem_name problem"
  by (auto simp: summary_def split: sum.splits prod.splits)

lemma detect_summary:
  "fst (analyse A problem m) = Inr (ctx, poly) \<Longrightarrow>
     fst (detect_special_structure A problem m) = summary problem ctx poly"
  by (cases "analyse A problem m") (simp add: detect_special_structure_def)

text \<open>
  The only failure of the summary is a lookup that misses, and the summary fails exactly when
  one of its lookups misses.
\<close>

lemma variable_info_Inl:
  "(\<exists>err. variable_info ctx k v = Inl err) \<longleftrightarrow> bound ctx (ident v) = None"
  "variable_info ctx k v = Inl err \<Longrightarrow> err = KeyError"
  by (auto simp: variable_info_def Let_def split: option.splits)

lemma objective_info_Inl:
  "(\<exists>err. objective_info ctx poly obj = Inl err) \<longleftrightarrow>
     convexity ctx (ident obj) = None \<or> poly (ident obj) = None"
  "objective_info ctx poly obj = Inl err \<Longrightarrow> err = KeyError"
  by (auto simp: objective_info_def Let_def split: option.splits)

lemma constraint_info_Inl:
  "(\<exists>err. constraint_info ctx poly c = Inl err) \<longleftrightarrow>
     convexity ctx (ident c) = None \<or> poly (ident c) = None"
  "constraint_info ctx poly c = Inl err \<Longrightarrow> err = KeyError"
  by (auto simp: constraint_info_def Let_def split: option.splits)

lemma summarize_variables_outcome:
  "(if \<exists>v \<in> snd ` set items. bound ctx (ident v) = None
    then summarize_variables ctx items vars ws = Inl KeyError
    else \<exists>r. summarize_variables ctx items vars ws = Inr r)"
proof (induction items arbitrary: vars ws)
  case Nil
  then show ?case by simp
next
  case (Cons item rest)
  obtain k v where item: "item = (k, v)" by (cases item)
  show ?case
  proof (cases "variable_info ctx k v")
    case (Inl err)
    with variable_info_Inl[of ctx k v] show ?thesis by (auto simp: item)
  next
    case (Inr e)
    with variable_info_Inl(1)[of ctx k v] have "bound ctx (ident v) \<noteq> None" by auto
    then have cond: "(\<exists>v \<in> snd ` set (item # rest). bound ctx (ident v) = None)
        \<longleftrightarrow> (\<exists>v \<in> snd ` set rest. bound ctx (ident v) = None)"
      by (auto simp: item)
    define ws1 where "ws1 = (if contains vars (name v) then ws @ [''Duplicate variable '' @ name v] else ws)"
    have step: "summarize_variables ctx (item # rest) vars ws
                = summarize_variables ctx rest (AList.update k e vars) ws1"
      using Inr by (simp add: item ws1_def)
    show ?thesis unfolding step cond by (rule Cons.IH)
  qed
qed

lemma summarize_objectives_outcome:
  "(if \<exists>obj \<in> snd ` set items. convexity ctx (ident obj) = None \<or> poly (ident obj) = None
    then summarize_objectives ctx poly items objs ws = Inl KeyError
    else \<exists>r. summarize_objectives ctx poly items objs ws = Inr r)"
proof (induction items arbitrary: objs ws)
  case Nil
  then show ?case by simp
next
  case (Cons item rest)
  obtain k obj where item: "item = (k, obj)" by (cases item)
  show ?case
  proof (cases "objective_info ctx poly obj")
    case (Inl err)
    with objective_info_Inl[of ctx poly obj] show ?thesis by (auto simp: item)
  next
    case (Inr e)
    with objective_info_Inl(1)[of ctx poly obj]
    have "\<not> (convexity ctx (ident obj) = None \<or> poly (ident obj) = None)" by auto
    then have cond: "(\<exists>obj \<in> snd ` set (item # rest). convexity ctx (ident obj) = None \<or> poly (ident obj) = None)
        \<longleftrightarrow> (\<exists>obj \<in> snd ` set rest. convexity ctx (ident obj) = None \<or> poly (ident obj) = None)"
      by (auto simp: item)
    define ws1 where "ws1 = (if contains objs k then ws @ [''Duplicate objective '' @ k] else ws)"
    have step: "summarize_objectives ctx poly (item # rest) objs ws
                = summarize_objectives ctx poly rest (AList.update (name obj) e objs) ws1"
      using Inr by (simp add: item ws1_def Let_def)
    show ?thesis unfolding step cond by (rule Cons.IH)
  qed
qed

lemma summarize_constraints_outcome:
  "(if \<exists>c \<in> snd ` set items. convexity ctx (ident c) = None \<or> poly (ident c) = None
    then summarize_constraints ctx poly items conss ws = Inl KeyError
    else \<exists>r. summarize_constraints ctx poly items conss ws = Inr r)"
proof (induction items arbitrary: conss ws)
  case Nil
  then show ?case by simp
next
  case (Cons item rest)
  obtain k c where item: "item = (k, c)" by (cases item)
  show ?case
  proof (cases "constraint_info ctx poly c")
    case (Inl err)
    with constraint_info_Inl[of ctx poly c] show ?thesis by (auto simp: item)
  next
    case (Inr e)
    with constraint_info_Inl(1)[of ctx poly c]
    have "\<not> (convexity ctx (ident c) = None \<or> poly (ident c) = None)" by auto
    then have cond: "(\<exists>c \<in> snd ` set (item # rest). convexity ctx (ident c) = None \<or> poly (ident c) = None)
        \<longleftrightarrow> (\<exists>c \<in> snd ` set rest. convexity ctx (ident c) = None \<or> poly (ident c) = None)"
      by (auto simp: item)
    define ws1 where "ws1 = (if contains conss k then ws @ [''Duplicate constraint '' @ k] else ws)"
    have step: "summarize_constraints ctx poly (item # rest) conss ws
                = summarize_constraints ctx poly rest (AList.update k e conss) ws1"
      using Inr by (simp add: item ws1_def Let_def)
    show ?thesis unfolding step cond by (rule Cons.IH)
  qed
qed

lemma summary_outcome:
  "(if lookups_hit problem ctx poly
    then \<exists>r. summary problem ctx poly = Inr r
    else summary problem ctx poly = Inl KeyError)"
proof -
  note v = summarize_variables_outcome[of "variables problem" ctx "[]" "[]"]
  show ?thesis
  proof (cases "\<exists>v \<in> snd ` set (variables problem). bound ctx (ident v) = None")
    case True
    then have "\<not> lookups_hit problem ctx poly"
      by (auto simp: lookups_hit_def)
    moreover from True v have "summary problem ctx poly = Inl KeyError"
      by (simp add: summary_def)
    ultimately show ?thesis by simp
  next
    case nv: False
    with v obtain vars ws1 where
      vr: "summarize_variables ctx (variables problem) [] [] = Inr (vars, ws1)"
      by (metis surj_pair)
    note o = summarize_objectives_outcome[of "objectives problem" ctx poly "[]" ws1]
    show ?thesis
    proof (cases "\<exists>obj \<in> snd ` set (objectives problem).
                    convexity ctx (ident obj) = None \<or> poly (ident obj) = None")
      case True
      then have "\<not> lookups_hit problem ctx poly"
        by (auto simp: lookups_hit_def)
      moreover from True o vr have "summary problem ctx poly = Inl KeyError"
        by (simp add: summary_def)
      ultimately show ?thesis by simp
    next
      case no: False
      with o obtain objs ws2 where
        or: "summarize_objectives ctx poly (objectives problem) [] ws1 = Inr (objs, ws2)"
        by (metis surj_pair)
      note c = summarize_constraints_outcome[of "constraints problem" ctx poly "[]" ws2]
      show ?thesis
      proof (cases "\<exists>c \<in> snd ` set (constraints problem).
                      convexity ctx (ident c) = None \<or> poly (ident c) = None")
        case True
        then have "\<not> lookups_hit problem ctx poly"
          by (auto simp: lookups_hit_def)
        moreover from True c vr or have "summary problem ctx poly = Inl KeyError"
          by (simp add: summary_def)
        ultimately show ?thesis by simp
      next
        case nc: False
        with c obtain conss ws3 where
          cr: "summarize_constraints ctx poly (constraints problem) [] ws2 = Inr (conss, ws3)"
          by (metis surj_pair)
        from nv no nc have "lookups_hit problem ctx poly"
          by (auto simp: lookups_hit_def)
        moreover from vr or cr have "\<exists>r. summary problem ctx poly = Inr r"
          by (simp add: summary_def)
        ultimately show ?thesis by simp
      qed
    qed
  qed
qed

lemma objective_info_unbounded:
  "objective_info ctx poly obj = Inr e \<Longrightarrow> bound ctx (ident obj) = None \<Longrightarrow>
     oi_lower_bound e = None \<and> oi_upper_bound e = None"
  by (auto simp: objective_info_def Let_def split: option.splits)

text \<open>
  Claim C2.  The spec has the first occurrence of a repeated name win, with a warning.  In
  the code every occurrence is stored, the later one replacing the earlier one: once the
  analysis passes have returned and the summary is built, the entry of the report under a
  name is the one made from the last variable (or constraint) with that key, respectively
  from the last objective with that name, and a name that no item carries has no entry.
  The three mappings are separate, so a variable and a constraint of the same name are both
  reported.
\<close>

theorem summary_last_occurrence:
  assumes an: "fst (analyse A problem max_iter) = Inr (ctx, polynomial)"
      and ok: "fst (detect_special_structure A problem max_iter) = Inr (info, ws)"
  shows "(case List.find (\<lambda>(k, v). k = n) (rev (variables problem)) of
            None \<Rightarrow> map_of (mi_variables info) n = None
          | Some (k, v) \<Rightarrow>
              \<exists>e. variable_info ctx k v = Inr e \<and> map_of (mi_variables info) n = Some e)
       \<and> (case List.find (\<lambda>(k, obj). name obj = n) (rev (objectives problem)) of
            None \<Rightarrow> map_of (mi_objectives info) n = None
          | Some (k, obj) \<Rightarrow>
              \<exists>e. objective_info ctx polynomial obj = Inr e \<and> map_of (mi_objectives info) n = Some e)
       \<and> (case List.find (\<lambda>(k, c). k = n) (rev (constraints problem)) of
            None \<Rightarrow> map_of (mi_constraints info) n = None
          | Some (k, c) \<Rightarrow>
              \<exists>e. constraint_info ctx polynomial c = Inr e \<and> map_of (mi_constraints info) n = Some e)"
proof -
  from an ok have "summary problem ctx polynomial = Inr (info, ws)"
    by (simp add: detect_summary)
  from summary_parts[OF this] obtain ws1 ws2 where
    v: "summarize_variables ctx (variables problem) [] [] = Inr (mi_variables info, ws1)" and
    o: "summarize_objectives ctx polynomial (objectives problem) [] ws1 = Inr (mi_objectives info, ws2)" and
    c: "summarize_constraints ctx polynomial (constraints problem) [] ws2 = Inr (mi_constraints info, ws)"
    by blast
  have p1: "case List.find (\<lambda>(k, v). k = n) (rev (variables problem)) of
            None \<Rightarrow> map_of (mi_variables info) n = None
          | Some (k, v) \<Rightarrow>
              \<exists>e. variable_info ctx k v = Inr e \<and> map_of (mi_variables info) n = Some e"
    using summarize_variables_last[OF v, of n] by (auto split: option.splits)
  have p2: "case List.find (\<lambda>(k, obj). name obj = n) (rev (objectives problem)) of
            None \<Rightarrow> map_of (mi_objectives info) n = None
          | Some (k, obj) \<Rightarrow>
              \<exists>e. objective_info ctx polynomial obj = Inr e \<and> map_of (mi_objectives info) n = Some e"
    using summarize_objectives_last[OF o, of n] by (auto split: option.splits)
  have p3: "case List.find (\<lambda>(k, c). k = n) (rev (constraints problem)) of
            None \<Rightarrow> map_of (mi_constraints info) n = None
          | Some (k, c) \<Rightarrow>
              \<exists>e. constraint_info ctx polynomial c = Inr e \<and> map_of (mi_constraints info) n = Some e"
    using summarize_constraints_last[OF c, of n] by (auto split: option.splits)
  from p1 p2 p3 show ?thesis by (intro conjI)
qed

theorem summary_last_occurrence_witness:
  "fst (analyse A0 p0 10)
     = Inr (\<lparr>bound = map_of bounds0,
              convexity = map_of [(2, Convex), (3, Convex), (4, Linear)]\<rparr>, map_of degrees0)
 \<and> (\<exists>info ws. fst (detect_special_structure A0 p0 10) = Inr (info, ws)
       \<and> map_of (mi_objectives info) ''cost''
           = Some \<lparr>oi_sense = ''max'', oi_convexity = Convex,
                    oi_polynomial_degree = PolynomialDegree (Some 1),
                    oi_lower_bound = None, oi_upper_bound = None\<rparr>
       \<and> map_of (mi_variables info) ''x''
           = Some \<lparr>vi_name = ''x'', vi_type = ''continuous'',
                    vi_lower_bound = Some 0, vi_upper_bound = Some 5\<rparr>
       \<and> map_of (mi_constraints info) ''x''
           = Some \<lparr>ci_type = ''equality'', ci_convexity = Linear,
                    ci_polynomial_degree = PolynomialDegree (Some 1)\<rparr>
       \<and> map_of (mi_objectives info) ''f'' = None)"
proof -
  have an: "fst (analyse A0 p0 10)
     = Inr (\<lparr>bound = map_of bounds0,
              convexity = map_of [(2, Convex), (3, Convex), (4, Linear)]\<rparr>, map_of degrees0)"
    by (simp add: analyse_def A0_def fixed_analysis_def eval_nat_numeral)
  have "\<exists>info ws. fst (detect_special_structure A0 p0 10) = Inr (info, ws)"
    by (simp add: example_defs eval_nat_numeral)
  then obtain info ws where ok: "fst (detect_special_structure A0 p0 10) = Inr (info, ws)"
    by blast
  have c: "map_of (mi_objectives info) ''cost''
           = Some \<lparr>oi_sense = ''max'', oi_convexity = Convex,
                    oi_polynomial_degree = PolynomialDegree (Some 1),
                    oi_lower_bound = None, oi_upper_bound = None\<rparr>"
    using summary_last_occurrence [OF an ok, of "''cost''"]
    by (simp add: p0_def objective_info_def is_minimizing_def bounds0_def degrees0_def)
  have x: "map_of (mi_variables info) ''x''
           = Some \<lparr>vi_name = ''x'', vi_type = ''continuous'',
                    vi_lower_bound = Some 0, vi_upper_bound = Some 5\<rparr>
       \<and> map_of (mi_constraints info) ''x''
           = Some \<lparr>ci_type = ''equality'', ci_convexity = Linear,
                    ci_polynomial_degree = PolynomialDegree (Some 1)\<rparr>"
    using summary_last_occurrence [OF an ok, of "''x''"]
    by (simp add: p0_def variable_info_def constraint_info_def is_binary_def is_integer_def
        is_equality_def bounds0_def degrees0_def)
  have f: "map_of (mi_objectives info) ''f'' = None"
    using summary_last_occurrence [OF an ok, of "''f''"]
    by (simp add: p0_def)
  from an ok c x f show ?thesis by blast
qed

text \<open>
  The problem \<open>p0\<close> has two objectives named \<open>cost\<close>, the first to be minimised, the
  second to be maximised.  The report has one entry \<open>cost\<close>, made from the second one,
  and no warning is issued.
\<close>

theorem duplicate_objective_overwritten:
  "map (name \<circ> snd) (objectives p0) = [''cost'', ''cost'']
 \<and> map (sense \<circ> snd) (objectives p0) = [MINIMIZE, MAXIMIZE]
 \<and> fst (detect_special_structure A0 p0 10) =
     Inr (\<lparr>mi_name = ''example'',
           mi_variables =
             [(''x'', \<lparr>vi_name = ''x'', vi_type = ''continuous'',
                       vi_lower_bound = Some 0, vi_upper_bound = Some 5\<rparr>)],
           mi_objectives =
             [(''cost'', \<lparr>oi_sense = ''max'', oi_convexity = Convex,
                          oi_polynomial_degree = PolynomialDegree (Some 1),
                          oi_lower_bound = None, oi_upper_bound = None\<rparr>)],
           mi_constraints =
             [(''x'', \<lparr>ci_type = ''equality'', ci_convexity = Linear,
                       ci_polynomial_degree = PolynomialDegree (Some 1)\<rparr>)]\<rparr>,
          [])"
  by (simp add: example_defs eval_nat_numeral)

text \<open>
  Claim C10.  Once the analysis passes have returned: if every variable has a bound in the
  context and every objective and every constraint has a convexity and a degree, the
  summary is produced, and an objective without a bound in the context is reported with
  both ends of its bound absent; otherwise (a variable without a bound, an objective or a
  constraint without a convexity or without a degree) the call fails with the lookup
  error.
\<close>

theorem missing_context_entries:
  assumes an: "fst (analyse A problem max_iter) = Inr (ctx, polynomial)"
  shows "(if (\<forall>v \<in> snd ` set (variables problem). bound ctx (ident v) \<noteq> None)
           \<and> (\<forall>obj \<in> snd ` set (objectives problem).
                 convexity ctx (ident obj) \<noteq> None \<and> polynomial (ident obj) \<noteq> None)
           \<and> (\<forall>c \<in> snd ` set (constraints problem).
                 convexity ctx (ident c) \<noteq> None \<and> polynomial (ident c) \<noteq> None)
          then \<exists>info ws. fst (detect_special_structure A problem max_iter) = Inr (info, ws)
                 \<and> (\<forall>n. case List.find (\<lambda>(k, obj). name obj = n) (rev (objectives problem)) of
                           None \<Rightarrow> map_of (mi_objectives info) n = None
                         | Some (k, obj) \<Rightarrow>
                             bound ctx (ident obj) = None \<longrightarrow>
                               (\<exists>e. map_of (mi_objectives info) n = Some e
                                   \<and> oi_lower_bound e = None \<and> oi_upper_bound e = None))
          else fst (detect_special_structure A problem max_iter) = Inl KeyError)"
proof (cases "lookups_hit problem ctx polynomial")
  case True
  with summary_outcome[of problem ctx polynomial] obtain info ws where
    s: "summary problem ctx polynomial = Inr (info, ws)"
    by (metis surj_pair)
  with an have d: "fst (detect_special_structure A problem max_iter) = Inr (info, ws)"
    by (simp add: detect_summary)
  from summary_parts[OF s] obtain ws1 ws2 where
    o: "summarize_objectives ctx polynomial (objectives problem) [] ws1
          = Inr (mi_objectives info, ws2)"
    by blast
  have "case List.find (\<lambda>(k, obj). name obj = n) (rev (objectives problem)) of
           None \<Rightarrow> map_of (mi_objectives info) n = None
         | Some (k, obj) \<Rightarrow>
             bound ctx (ident obj) = None \<longrightarrow>
               (\<exists>e. map_of (mi_objectives info) n = Some e
                   \<and> oi_lower_bound e = None \<and> oi_upper_bound e = None)" for n
    using summarize_objectives_last[OF o, of n]
    by (auto split: option.splits dest: objective_info_unbounded)
  with d have "\<exists>info ws. fst (detect_special_structure A problem max_iter) = Inr (info, ws)
                 \<and> (\<forall>n. case List.find (\<lambda>(k, obj). name obj = n) (rev (objectives problem)) of
                           None \<Rightarrow> map_of (mi_objectives info) n = None
                         | Some (k, obj) \<Rightarrow>
                             bound ctx (ident obj) = None \<longrightarrow>
                               (\<exists>e. map_of (mi_objectives info) n = Some e
                                   \<and> oi_lower_bound e = None \<and> oi_upper_bound e = None))"
    by blast
  with True show ?thesis
    unfolding lookups_hit_def by simp
next
  case False
  with summary_outcome[of problem ctx polynomial]
  have "summary problem ctx polynomial = Inl KeyError"
    by simp
  with an have "fst (detect_special_structure A problem max_iter) = Inl KeyError"
    by (simp add: detect_summary)
  with False show ?thesis
    unfolding lookups_hit_def by simp
qed

theorem missing_context_entries_witness:
  "fst (analyse A0 p0 10)
     = Inr (\<lparr>bound = map_of bounds0,
              convexity = map_of [(2, Convex), (3, Convex), (4, Linear)]\<rparr>, map_of degrees0)
 \<and> map_of bounds0 3 = None
 \<and> (\<exists>info ws e. fst (detect_special_structure A0 p0 10) = Inr (info, ws)
        \<and> map_of (mi_objectives info) ''cost'' = Some e
        \<and> oi_lower_bound e = None \<and> oi_upper_bound e = None)
 \<and> fst (analyse A_unbounded p0 10)
     = Inr (\<lparr>bound = Map.empty,
              convexity = map_of [(2, Convex), (3, Convex), (4, Linear)]\<rparr>, map_of degrees0)
 \<and> fst (detect_special_structure A_unbounded p0 10) = Inl KeyError"
proof -
  have an: "fst (analyse A0 p0 10)
     = Inr (\<lparr>bound = map_of bounds0,
              convexity = map_of [(2, Convex), (3, Convex), (4, Linear)]\<rparr>, map_of degrees0)"
    by (simp add: analyse_def A0_def fixed_analysis_def eval_nat_numeral)
  have au: "fst (analyse A_unbounded p0 10)
     = Inr (\<lparr>bound = Map.empty,
              convexity = map_of [(2, Convex), (3, Convex), (4, Linear)]\<rparr>, map_of degrees0)"
    by (simp add: analyse_def A_unbounded_def fixed_analysis_def eval_nat_numeral)
  have b: "map_of bounds0 3 = None"
    by (simp add: bounds0_def)
  have f: "List.find (\<lambda>(k, obj). name obj = ''cost'') (rev (objectives p0))
             = Some (''g'', \<lparr>ident = 3, name = ''cost'', sense = MAXIMIZE\<rparr>)"
    by (simp add: p0_def)
  have hit: "\<exists>info ws e. fst (detect_special_structure A0 p0 10) = Inr (info, ws)
        \<and> map_of (mi_objectives info) ''cost'' = Some e
        \<and> oi_lower_bound e = None \<and> oi_upper_bound e = None"
  proof -
    from missing_context_entries [OF an]
    obtain info ws where
      d: "fst (detect_special_structure A0 p0 10) = Inr (info, ws)" and
      a: "\<forall>n. case List.find (\<lambda>(k, obj). name obj = n) (rev (objectives p0)) of
                 None \<Rightarrow> map_of (mi_objectives info) n = None
               | Some (k, obj) \<Rightarrow>
                   bound \<lparr>bound = map_of bounds0,
                          convexity = map_of [(2, Convex), (3, Convex), (4, Linear)]\<rparr> (ident obj) = None \<longrightarrow>
                     (\<exists>e. map_of (mi_objectives info) n = Some e
                         \<and> oi_lower_bound e = None \<and> oi_upper_bound e = None)"
      by (auto simp: p0_def bounds0_def degrees0_def)
    from a have "case List.find (\<lambda>(k, obj). name obj = ''cost'') (rev (objectives p0)) of
                 None \<Rightarrow> map_of (mi_objectives info) ''cost'' = None
               | Some (k, obj) \<Rightarrow>
                   bound \<lparr>bound = map_of bounds0,
                          convexity = map_of [(2, Convex), (3, Convex), (4, Linear)]\<rparr> (ident obj) = None \<longrightarrow>
                     (\<exists>e. map_of (mi_objectives info) ''cost'' = Some e
                         \<and> oi_lower_bound e = None \<and> oi_upper_bound e = None)"
      by (rule allE)
    with f b d show ?thesis
      by auto
  qed
  have miss: "fst (detect_special_structure A_unbounded p0 10) = Inl KeyError"
    using missing_context_entries [OF au]
    by (simp add: p0_def)
  from an b hit au miss show ?thesis by blast
qed

subsection \<open>objtype\<close>

lemma update_fresh: "k \<notin> fst ` set al \<Longrightarrow> AList.update k v al = al @ [(k, v)]"
  by (induction al) auto

lemma inner_objtype_branches:
  "inner_objtype v =
     (if oi_convexity v = Linear
      then (if degree (oi_polynomial_degree v) = Some 1 then Inr ''linear''
            else Inl AssertionError)
      else if degree (oi_polynomial_degree v) = Some 2 then Inr ''quadratic''
      else if degree (oi_polynomial_degree v) \<noteq> None then Inr ''polynomial''
      else Inr ''nonlinear'')"
  by (cases "oi_convexity v")
     (simp_all add: inner_objtype_def Let_def cvx_is_linear_def is_linear_def is_quadratic_def
        is_polynomial_def)

lemma objtype_items_assert:
  "\<exists>v \<in> snd ` set items.
      oi_convexity v = Linear \<and> degree (oi_polynomial_degree v) \<noteq> Some 1 \<Longrightarrow>
   objtype_items items acc = Inl AssertionError"
proof (induction items arbitrary: acc)
  case Nil
  then show ?case by simp
next
  case (Cons item rest)
  obtain k v where item: "item = (k, v)" by (cases item)
  show ?case
  proof (cases "oi_convexity v = Linear \<and> degree (oi_polynomial_degree v) \<noteq> Some 1")
    case True
    then show ?thesis by (simp add: item inner_objtype_branches)
  next
    case False
    with Cons.prems item
    have r: "\<exists>v \<in> snd ` set rest.
               oi_convexity v = Linear \<and> degree (oi_polynomial_degree v) \<noteq> Some 1"
      by auto
    from False have "\<exists>t. inner_objtype v = Inr t"
      by (auto simp: inner_objtype_branches)
    then obtain t where t: "inner_objtype v = Inr t" ..
    show ?thesis
      by (simp add: item t Cons.IH[OF r])
  qed
qed

lemma objtype_items_distinct:
  "distinct (map fst items) \<Longrightarrow> fst ` set items \<inter> fst ` set acc = {} \<Longrightarrow>
   \<not> (\<exists>v \<in> snd ` set items.
          oi_convexity v = Linear \<and> degree (oi_polynomial_degree v) \<noteq> Some 1) \<Longrightarrow>
   objtype_items items acc =
     Inr (acc @ map (\<lambda>(k, v).
            (k, if oi_convexity v = Linear then ''linear''
                else if degree (oi_polynomial_degree v) = Some 2 then ''quadratic''
                else if degree (oi_polynomial_degree v) \<noteq> None then ''polynomial''
                else ''nonlinear'')) items)"
proof (induction items arbitrary: acc)
  case Nil
  then show ?case by simp
next
  case (Cons item rest)
  obtain k v where item: "item = (k, v)" by (cases item)
  let ?t = "if oi_convexity v = Linear then ''linear''
            else if degree (oi_polynomial_degree v) = Some 2 then ''quadratic''
            else if degree (oi_polynomial_degree v) \<noteq> None then ''polynomial''
            else ''nonlinear''"
  from Cons.prems(3) item
  have t: "inner_objtype v = Inr ?t"
    by (auto simp: inner_objtype_branches)
  from Cons.prems(2) item have fresh: "k \<notin> fst ` set acc"
    by auto
  then have u: "AList.update k ?t acc = acc @ [(k, ?t)]"
    by (rule update_fresh)
  from Cons.prems(1) item have d: "distinct (map fst rest)" and kr: "k \<notin> fst ` set rest"
    by auto
  from Cons.prems(2) item kr have disj: "fst ` set rest \<inter> fst ` set (acc @ [(k, ?t)]) = {}"
    by auto
  from Cons.prems(3) item
  have ok: "\<not> (\<exists>v \<in> snd ` set rest.
          oi_convexity v = Linear \<and> degree (oi_polynomial_degree v) \<noteq> Some 1)"
    by auto
  have "objtype_items (item # rest) acc = objtype_items rest (acc @ [(k, ?t)])"
    by (simp add: item t u)
  also note Cons.IH[OF d disj ok]
  finally show ?case
    by (simp add: item)
qed

lemma summarize_objectives_distinct:
  "summarize_objectives ctx poly items objs ws = Inr (objs', ws') \<Longrightarrow>
     distinct (map fst objs) \<Longrightarrow> distinct (map fst objs')"
proof (induction items arbitrary: objs ws)
  case Nil
  then show ?case by simp
next
  case (Cons item rest)
  obtain k obj where item: "item = (k, obj)" by (cases item)
  from Cons.prems(1) item obtain e where
    e: "objective_info ctx poly obj = Inr e" and
    r: "summarize_objectives ctx poly rest (AList.update (name obj) e objs)
          (if contains objs k then ws @ [''Duplicate objective '' @ k] else ws) = Inr (objs', ws')"
    by (auto simp: Let_def split: sum.splits)
  from Cons.prems(2) have "distinct (map fst (AList.update (name obj) e objs))"
    by (rule AList.distinct_update)
  from Cons.IH[OF r this] show ?case .
qed

lemma detect_objectives_distinct:
  assumes "fst (detect_special_structure A problem m) = Inr (info, ws)"
  shows "distinct (map fst (mi_objectives info))"
proof -
  from assms obtain ctx poly where
    s: "summary problem ctx poly = Inr (info, ws)"
    by (auto simp: detect_special_structure_def split: prod.splits sum.splits)
  from summary_parts[OF s] obtain ws1 ws2 where
    "summarize_objectives ctx poly (objectives problem) [] ws1 = Inr (mi_objectives info, ws2)"
    by blast
  then show ?thesis
    by (rule summarize_objectives_distinct) simp
qed

text \<open>
  Claim C3.  The spec gives \<open>linear\<close> for a linear convexity with degree 1, \<open>quadratic\<close> for
  degree 2, \<open>polynomial\<close> for a finite degree above 2, \<open>nonlinear\<close> otherwise.  The code
  decides on the convexity first: for a report of \<open>detect_special_structure\<close>, \<open>objtype\<close>
  fails on its assertion when some objective has a linear convexity and a degree other
  than 1; otherwise it maps every objective, in the order of the report, to \<open>linear\<close> when
  its convexity is linear, else to \<open>quadratic\<close> when its degree is 2, else to \<open>polynomial\<close>
  when its degree is finite (0 and 1 included), else to \<open>nonlinear\<close>.
\<close>

theorem objtype_of_report:
  assumes "fst (detect_special_structure A problem max_iter) = Inr (self, ws)"
  shows "(if \<exists>v \<in> snd ` set (mi_objectives self).
               oi_convexity v = Linear \<and> degree (oi_polynomial_degree v) \<noteq> Some 1
          then objtype self = Inl AssertionError
          else objtype self =
                 Inr (map (\<lambda>(k, v).
                        (k, if oi_convexity v = Linear then ''linear''
                            else if degree (oi_polynomial_degree v) = Some 2 then ''quadratic''
                            else if degree (oi_polynomial_degree v) \<noteq> None then ''polynomial''
                            else ''nonlinear'')) (mi_objectives self)))"
proof (cases "\<exists>v \<in> snd ` set (mi_objectives self).
               oi_convexity v = Linear \<and> degree (oi_polynomial_degree v) \<noteq> Some 1")
  case True
  from objtype_items_assert[OF True, of "[]"] True show ?thesis
    by (simp add: objtype_def)
next
  case False
  from assms have "distinct (map fst (mi_objectives self))"
    by (rule detect_objectives_distinct)
  from objtype_items_distinct[OF this _ False, of "[]"] False show ?thesis
    by (simp add: objtype_def)
qed

theorem objtype_of_report_witness:
  "fst (detect_special_structure A_linear p0 10) =
     Inr (\<lparr>mi_name = ''example'',
           mi_variables =
             [(''x'', \<lparr>vi_name = ''x'', vi_type = ''continuous'',
                       vi_lower_bound = Some 0, vi_upper_bound = Some 5\<rparr>)],
           mi_objectives =
             [(''cost'', \<lparr>oi_sense = ''max'', oi_convexity = Linear,
                          oi_polynomial_degree = PolynomialDegree (Some 1),
                          oi_lower_bound = None, oi_upper_bound = None\<rparr>)],
           mi_constraints =
             [(''x'', \<lparr>ci_type = ''equality'', ci_convexity = Linear,
                       ci_polynomial_degree = PolynomialDegree (Some 1)\<rparr>)]\<rparr>,
          [])
 \<and> objtype \<lparr>mi_name = ''example'',
           mi_variables =
             [(''x'', \<lparr>vi_name = ''x'', vi_type = ''continuous'',
                       vi_lower_bound = Some 0, vi_upper_bound = Some 5\<rparr>)],
           mi_objectives =
             [(''cost'', \<lparr>oi_sense = ''max'', oi_convexity = Linear,
                          oi_polynomial_degree = PolynomialDegree (Some 1),
                          oi_lower_bound = None, oi_upper_bound = None\<rparr>)],
           mi_constraints =
             [(''x'', \<lparr>ci_type = ''equality'', ci_convexity = Linear,
                       ci_polynomial_degree = PolynomialDegree (Some 1)\<rparr>)]\<rparr>
      = Inr [(''cost'', ''linear'')]"
proof -
  have ok: "fst (detect_special_structure A_linear p0 10) =
     Inr (\<lparr>mi_name = ''example'',
           mi_variables =
             [(''x'', \<lparr>vi_name = ''x'', vi_type = ''continuous'',
                       vi_lower_bound = Some 0, vi_upper_bound = Some 5\<rparr>)],
           mi_objectives =
             [(''cost'', \<lparr>oi_sense = ''max'', oi_convexity = Linear,
                          oi_polynomial_degree = PolynomialDegree (Some 1),
                          oi_lower_bound = None, oi_upper_bound = None\<rparr>)],
           mi_constraints =
             [(''x'', \<lparr>ci_type = ''equality'', ci_convexity = Linear,
                       ci_polynomial_degree = PolynomialDegree (Some 1)\<rparr>)]\<rparr>,
          [])"
    by (simp add: example_defs eval_nat_numeral)
  from objtype_of_report [OF ok] ok show ?thesis
    by simp
qed

text \<open>
  Two reports on which the code and the spec's rule part: an objective that is convex and
  of degree 1 is \<open>polynomial\<close> for the code and \<open>nonlinear\<close> for the spec; for an objective
  with a linear convexity and degree 2 the code fails on the assertion, where the spec has
  \<open>quadratic\<close>.
\<close>

theorem objtype_differs_from_spec:
  "fst (detect_special_structure A0 p0 10) =
     Inr (\<lparr>mi_name = ''example'',
           mi_variables =
             [(''x'', \<lparr>vi_name = ''x'', vi_type = ''continuous'',
                       vi_lower_bound = Some 0, vi_upper_bound = Some 5\<rparr>)],
           mi_objectives =
             [(''cost'', \<lparr>oi_sense = ''max'', oi_convexity = Convex,
                          oi_polynomial_degree = PolynomialDegree (Some 1),
                          oi_lower_bound = None, oi_upper_bound = None\<rparr>)],
           mi_constraints =
             [(''x'', \<lparr>ci_type = ''equality'', ci_convexity = Linear,
                       ci_polynomial_degree = PolynomialDegree (Some 1)\<rparr>)]\<rparr>,
          [])
 \<and> objtype \<lparr>mi_name = ''example'',
           mi_variables =
             [(''x'', \<lparr>vi_name = ''x'', vi_type = ''continuous'',
                       vi_lower_bound = Some 0, vi_upper_bound = Some 5\<rparr>)],
           mi_objectives =
             [(''cost'', \<lparr>oi_sense = ''max'', oi_convexity = Convex,
                          oi_polynomial_degree = PolynomialDegree (Some 1),
                          oi_lower_bound = None, oi_upper_bound = None\<rparr>)],
           mi_constraints =
             [(''x'', \<lparr>ci_type = ''equality'', ci_convexity = Linear,
                       ci_polynomial_degree = PolynomialDegree (Some 1)\<rparr>)]\<rparr>
      = Inr [(''cost'', ''polynomial'')]
 \<and> objtype_spec Convex (PolynomialDegree (Some 1)) = ''nonlinear''
 \<and> fst (detect_special_structure A_assert p0 10) =
     Inr (\<lparr>mi_name = ''example'',
           mi_variables =
             [(''x'', \<lparr>vi_name = ''x'', vi_type = ''continuous'',
                       vi_lower_bound = Some 0, vi_upper_bound = Some 5\<rparr>)],
           mi_objectives =
             [(''cost'', \<lparr>oi_sense = ''max'', oi_convexity = Linear,
                          oi_polynomial_degree = PolynomialDegree (Some 2),
                          oi_lower_bound = None, oi_upper_bound = None\<rparr>)],
           mi_constraints =
             [(''x'', \<lparr>ci_type = ''equality'', ci_convexity = Linear,
                       ci_polynomial_degree = PolynomialDegree (Some 1)\<rparr>)]\<rparr>,
          [])
 \<and> objtype \<lparr>mi_name = ''example'',
           mi_variables =
             [(''x'', \<lparr>vi_name = ''x'', vi_type = ''continuous'',
                       vi_lower_bound = Some 0, vi_upper_bound = Some 5\<rparr>)],
           mi_objectives =
             [(''cost'', \<lparr>oi_sense = ''max'', oi_convexity = Linear,
                          oi_polynomial_degree = PolynomialDegree (Some 2),
                          oi_lower_bound = None, oi_upper_bound = None\<rparr>)],
           mi_constraints =
             [(''x'', \<lparr>ci_type = ''equality'', ci_convexity = Linear,
                       ci_polynomial_degree = PolynomialDegree (Some 1)\<rparr>)]\<rparr>
      = Inl AssertionError
 \<and> objtype_spec Linear (PolynomialDegree (Some 2)) = ''quadratic''"
  by (simp add: example_defs eval_nat_numeral objtype_def inner_objtype_def objtype_spec_def
      cvx_is_linear_def is_linear_def is_quadratic_def is_polynomial_def)
end
